theory Spec2Isabelle
  imports Complex_Main "HOL-Library.AList" "HOL-Library.Log_Nat"
begin

section \<open>Data model\<close>

text \<open>
  The formulation of \<^verbatim>\<open>model_formulation.py\<close> hangs every set and
  parameter on one model object.  The record below holds the input data the
  rules read: the timepoint table, the resource table, the technology
  parameters and the resource sets that are filtered from technology flags.
  Parameters without a default are total functions over their index set
  (the data has been loaded); Binary and Boolean flags are read for their
  truth value, as the source's \<^verbatim>\<open>if model.flag[r]:\<close> does.

  A Python float that only enters a constraint as a coefficient is idealised
  as a real.  The two fractions \<^verbatim>\<open>ramp_rate_fraction\<close> and
  \<^verbatim>\<open>min_stable_level_fraction\<close> also decide whether a ramp constraint is
  compiled, through the test \<^verbatim>\<open>ramp_rate_fraction >= (1 - min_stable_level_fraction)\<close>
  that Python evaluates in binary64, so they are kept as doubles.
\<close>

datatype error = ValueError | KeyError | IndexError | AttributeError | ZeroDivisionError

type_synonym timepoint = int
type_synonym resource = string
type_synonym technology = string

subsection \<open>Doubles\<close>

text \<open>
  A double is a mantissa and a binary exponent; its value is
  \<open>mantissa * 2 ^ exponent\<close>.  A double read from the input data has a
  mantissa of at most 53 bits.  The range of the exponent (overflow,
  subnormal numbers) is not modelled: the subtraction below is only applied
  to the constant one and a fraction between zero and one.
\<close>

datatype double = Double (mantissa: int) (exponent: int)






subsection \<open>The model object\<close>

record model =
  TIMEPOINTS :: "timepoint list"
  period :: "timepoint \<Rightarrow> int"
  day :: "timepoint \<Rightarrow> int"
  RESOURCES :: "resource list"
  technology :: "resource \<Rightarrow> technology"
  can_retire :: "resource \<Rightarrow> bool"
  THERMAL_RESOURCES :: "resource list"
  DISPATCHABLE_RESOURCES :: "resource list"
  STORAGE_RESOURCES :: "resource list"
  NEW_BUILD_RESOURCES :: "resource list"
  RPS_ELIGIBLE_RESOURCES :: "resource list"
  REGULATION_RESERVE_RESOURCES :: "resource list"
  LOAD_FOLLOWING_RESERVE_RESOURCES :: "resource list"
  PRM_RESOURCES :: "resource list"
  PRM_NQC_RESOURCES :: "resource list"
  PRM_VARIABLE_RENEWABLE_RESOURCES :: "resource list"
  EE_PROGRAMS :: "resource list"
  LOAD_ONLY_RESOURCES :: "resource list"
  FLEXIBLE_LOAD_RESOURCES :: "resource list"
  min_down_time_hours :: "technology \<Rightarrow> int"
  min_up_time_hours :: "technology \<Rightarrow> int"
  ramp_rate_fraction :: "technology \<Rightarrow> double"
  min_stable_level_fraction :: "technology \<Rightarrow> double"
  unit_size_mw :: "technology \<Rightarrow> real"
  charging_efficiency :: "technology \<Rightarrow> real"
  discharging_efficiency :: "technology \<Rightarrow> real"
  reg_dispatch_fraction :: real
  lf_reserve_dispatch_fraction :: real
  elcc_solar_bin :: "resource \<Rightarrow> bool"
  elcc_wind_bin :: "resource \<Rightarrow> bool"
  import_on_existing_tx :: "resource \<Rightarrow> bool"
  import_on_new_tx :: "resource \<Rightarrow> bool"

text \<open>
  \<^verbatim>\<open>TX_DELIVERABILITY_RESOURCES = NEW_BUILD_RESOURCES & RPS_ELIGIBLE_RESOURCES & PRM_RESOURCES\<close>
\<close>

definition TX_DELIVERABILITY_RESOURCES :: "model \<Rightarrow> resource list" where
  "TX_DELIVERABILITY_RESOURCES m =
     filter (\<lambda>r. r \<in> set (RPS_ELIGIBLE_RESOURCES m) \<and> r \<in> set (PRM_RESOURCES m))
       (NEW_BUILD_RESOURCES m)"

text \<open>\<^verbatim>\<open>resolve_model.timepoints_per_day = Param(initialize=24)\<close>\<close>

definition timepoints_per_day :: int where
  "timepoints_per_day = 24"


section \<open>Temporal index\<close>

text \<open>Python's \<^verbatim>\<open>min\<close> and \<^verbatim>\<open>max\<close> raise ValueError on an empty list.\<close>

fun py_min :: "int list \<Rightarrow> error + int" where
  "py_min [] = Inl ValueError"
| "py_min (x # xs) = Inr (fold min xs x)"

fun py_max :: "int list \<Rightarrow> error + int" where
  "py_max [] = Inl ValueError"
| "py_max (x # xs) = Inr (fold max xs x)"

text \<open>
  A parameter or expression component initialised by a rule is built eagerly
  over its index set; the first index whose rule raises aborts the
  construction.  Reading a component at a key it does not hold raises
  KeyError.
\<close>

fun construct_component :: "('k \<Rightarrow> error + 'v) \<Rightarrow> 'k list \<Rightarrow> error + ('k \<times> 'v) list" where
  "construct_component rule [] = Inr []"
| "construct_component rule (k # ks) =
     (case rule k of
        Inl e \<Rightarrow> Inl e
      | Inr v \<Rightarrow>
          (case construct_component rule ks of
             Inl e \<Rightarrow> Inl e
           | Inr kvs \<Rightarrow> Inr ((k, v) # kvs)))"

definition param_get :: "('k \<times> 'v) list \<Rightarrow> 'k \<Rightarrow> error + 'v" where
  "param_get kvs k = (case map_of kvs k of None \<Rightarrow> Inl KeyError | Some v \<Rightarrow> Inr v)"

text \<open>\<^verbatim>\<open>periods_init\<close>, \<^verbatim>\<open>days_init\<close>: \<^verbatim>\<open>sorted(list(set(...)))\<close>.\<close>

definition periods_init :: "model \<Rightarrow> int list" where
  "periods_init m = sort (remdups (map (period m) (TIMEPOINTS m)))"

definition days_init :: "model \<Rightarrow> int list" where
  "days_init m = sort (remdups (map (day m) (TIMEPOINTS m)))"

definition first_period_init :: "int list \<Rightarrow> error + int" where
  "first_period_init periods = py_min periods"

text \<open>The list \<^verbatim>\<open>timepoints_on_day\<close> that both day-boundary rules collect.\<close>

definition timepoints_on_day :: "model \<Rightarrow> int \<Rightarrow> int \<Rightarrow> timepoint list" where
  "timepoints_on_day m p d = filter (\<lambda>t. period m t = p \<and> day m t = d) (TIMEPOINTS m)"

definition first_timepoint_of_day_init :: "model \<Rightarrow> int \<Rightarrow> int \<Rightarrow> error + timepoint" where
  "first_timepoint_of_day_init m p d = py_min (timepoints_on_day m p d)"

definition last_timepoint_of_day_init :: "model \<Rightarrow> int \<Rightarrow> int \<Rightarrow> error + timepoint" where
  "last_timepoint_of_day_init m p d = py_max (timepoints_on_day m p d)"

text \<open>
  \<^verbatim>\<open>previous_timepoint_init\<close> and \<^verbatim>\<open>next_timepoint_init\<close> fill a dictionary
  timepoint by timepoint, reading the two day-boundary parameters.
\<close>

definition previous_timepoint_init ::
  "model \<Rightarrow> ((int \<times> int) \<times> timepoint) list \<Rightarrow> ((int \<times> int) \<times> timepoint) list
    \<Rightarrow> error + (timepoint \<times> timepoint) list" where
  "previous_timepoint_init m first_tp last_tp =
     construct_component
       (\<lambda>t. case param_get first_tp (period m t, day m t) of
               Inl e \<Rightarrow> Inl e
             | Inr f \<Rightarrow>
                 if t = f then param_get last_tp (period m t, day m t)
                 else Inr (t - 1))
       (TIMEPOINTS m)"

definition next_timepoint_init ::
  "model \<Rightarrow> ((int \<times> int) \<times> timepoint) list \<Rightarrow> ((int \<times> int) \<times> timepoint) list
    \<Rightarrow> error + (timepoint \<times> timepoint) list" where
  "next_timepoint_init m first_tp last_tp =
     construct_component
       (\<lambda>t. case param_get last_tp (period m t, day m t) of
               Inl e \<Rightarrow> Inl e
             | Inr l \<Rightarrow>
                 if t = l then param_get first_tp (period m t, day m t)
                 else Inr (t + 1))
       (TIMEPOINTS m)"

text \<open>The temporal components, in the order the module declares them.\<close>

record temporal_index =
  PERIODS :: "int list"
  first_period :: int
  DAYS :: "int list"
  first_timepoint_of_day :: "((int \<times> int) \<times> timepoint) list"
  last_timepoint_of_day :: "((int \<times> int) \<times> timepoint) list"
  previous_timepoint :: "(timepoint \<times> timepoint) list"
  next_timepoint :: "(timepoint \<times> timepoint) list"

definition build_temporal_index :: "model \<Rightarrow> error + temporal_index" where
  "build_temporal_index m =
     (let ps = periods_init m in
      case first_period_init ps of
        Inl e \<Rightarrow> Inl e
      | Inr fp \<Rightarrow>
     (let ds = days_init m in
      case construct_component (\<lambda>(p, d). first_timepoint_of_day_init m p d) (List.product ps ds) of
        Inl e \<Rightarrow> Inl e
      | Inr first_tp \<Rightarrow>
     (case construct_component (\<lambda>(p, d). last_timepoint_of_day_init m p d) (List.product ps ds) of
        Inl e \<Rightarrow> Inl e
      | Inr last_tp \<Rightarrow>
     (case previous_timepoint_init m first_tp last_tp of
        Inl e \<Rightarrow> Inl e
      | Inr prev_tp \<Rightarrow>
     (case next_timepoint_init m first_tp last_tp of
        Inl e \<Rightarrow> Inl e
      | Inr next_tp \<Rightarrow>
          Inr \<lparr>PERIODS = ps, first_period = fp, DAYS = ds,
               first_timepoint_of_day = first_tp, last_timepoint_of_day = last_tp,
               previous_timepoint = prev_tp, next_timepoint = next_tp\<rparr>)))))"

section \<open>Expressions and constraints\<close>

text \<open>
  A rule returns a symbolic expression over the decision variables.  A
  reference to a decision variable is kept as syntax: the variable, the
  resource and the remaining indices.
\<close>

datatype variable =
    Commit_Units | Start_Units | Shut_Down_Units
  | Provide_Power_MW | Charge_Storage_MW | Energy_in_Storage_MWh
  | Provide_Downward_Reg_MW | Provide_Upward_Reg_MW
  | Provide_LF_Downward_Reserve_MW | Provide_LF_Upward_Reserve_MW
  | Fully_Deliverable_Installed_Capacity_MW | Energy_Only_Installed_Capacity_MW
  | Build_Capacity_MW | Retire_New_Capacity_By_Vintage_Cumulative_MW

datatype expr =
    Var variable resource "int list"
  | Const real
  | Add expr expr
  | Sub expr expr
  | Mul expr expr
  | Div expr expr
  | Neg expr

datatype constraint = Eq expr expr | Le expr expr | Ge expr expr

text \<open>A constraint rule returns a relation or \<^verbatim>\<open>Constraint.Skip\<close>.\<close>

datatype rule_result = Skip | Emit constraint

type_synonym solution = "variable \<Rightarrow> resource \<Rightarrow> int list \<Rightarrow> real"

fun eval :: "solution \<Rightarrow> expr \<Rightarrow> real" where
  "eval sol (Var v r i) = sol v r i"
| "eval sol (Const c) = c"
| "eval sol (Add a b) = eval sol a + eval sol b"
| "eval sol (Sub a b) = eval sol a - eval sol b"
| "eval sol (Mul a b) = eval sol a * eval sol b"
| "eval sol (Div a b) = eval sol a / eval sol b"
| "eval sol (Neg a) = - eval sol a"

fun holds :: "solution \<Rightarrow> constraint \<Rightarrow> bool" where
  "holds sol (Eq a b) = (eval sol a = eval sol b)"
| "holds sol (Le a b) = (eval sol a \<le> eval sol b)"
| "holds sol (Ge a b) = (eval sol a \<ge> eval sol b)"


text \<open>
  A constraint component runs its rule over the index set, keeps the
  relations and leaves the skipped indices out.
\<close>

fun constraint_construct ::
  "('i \<Rightarrow> error + rule_result) \<Rightarrow> 'i list \<Rightarrow> error + ('i \<times> constraint) list" where
  "constraint_construct rule [] = Inr []"
| "constraint_construct rule (i # is) =
     (case rule i of
        Inl e \<Rightarrow> Inl e
      | Inr Skip \<Rightarrow> constraint_construct rule is
      | Inr (Emit c) \<Rightarrow>
          (case constraint_construct rule is of
             Inl e \<Rightarrow> Inl e
           | Inr cs \<Rightarrow> Inr ((i, c) # cs)))"

definition feasible :: "solution \<Rightarrow> ('i \<times> constraint) list \<Rightarrow> bool" where
  "feasible sol cs = list_all (\<lambda>ic. holds sol (snd ic)) cs"

text \<open>
  The variables of the dispatch problem are declared over a set of
  resources and \<^verbatim>\<open>TIMEPOINTS\<close>:

  \<^item> \<^verbatim>\<open>Commit_Units\<close>, \<^verbatim>\<open>Start_Units\<close>, \<^verbatim>\<open>Shut_Down_Units\<close>:
    \<^verbatim>\<open>Var(DISPATCHABLE_RESOURCES, TIMEPOINTS)\<close>;
  \<^item> \<^verbatim>\<open>Provide_Power_MW\<close>:
    \<^verbatim>\<open>Var(RESOURCES - LOAD_ONLY_RESOURCES - EE_PROGRAMS - FLEXIBLE_LOAD_RESOURCES, TIMEPOINTS)\<close>;
  \<^item> \<^verbatim>\<open>Charge_Storage_MW\<close>, \<^verbatim>\<open>Energy_in_Storage_MWh\<close>:
    \<^verbatim>\<open>Var(STORAGE_RESOURCES, TIMEPOINTS)\<close>;
  \<^item> the two regulation variables: \<^verbatim>\<open>Var(REGULATION_RESERVE_RESOURCES, TIMEPOINTS)\<close>;
  \<^item> the two load-following variables:
    \<^verbatim>\<open>Var(LOAD_FOLLOWING_RESERVE_RESOURCES, TIMEPOINTS)\<close>.

  Subscripting a variable with an index outside its index set raises
  KeyError.  The capacity variables are indexed by period or vintage; they
  are referenced by the deliverability rules only, at indices the rule
  receives from the variable's own index set.
\<close>

definition variable_resources :: "model \<Rightarrow> variable \<Rightarrow> resource set" where
  "variable_resources m v =
     (case v of
        Commit_Units \<Rightarrow> set (DISPATCHABLE_RESOURCES m)
      | Start_Units \<Rightarrow> set (DISPATCHABLE_RESOURCES m)
      | Shut_Down_Units \<Rightarrow> set (DISPATCHABLE_RESOURCES m)
      | Provide_Power_MW \<Rightarrow>
          set (RESOURCES m) - set (LOAD_ONLY_RESOURCES m) - set (EE_PROGRAMS m)
            - set (FLEXIBLE_LOAD_RESOURCES m)
      | Charge_Storage_MW \<Rightarrow> set (STORAGE_RESOURCES m)
      | Energy_in_Storage_MWh \<Rightarrow> set (STORAGE_RESOURCES m)
      | Provide_Downward_Reg_MW \<Rightarrow> set (REGULATION_RESERVE_RESOURCES m)
      | Provide_Upward_Reg_MW \<Rightarrow> set (REGULATION_RESERVE_RESOURCES m)
      | Provide_LF_Downward_Reserve_MW \<Rightarrow> set (LOAD_FOLLOWING_RESERVE_RESOURCES m)
      | Provide_LF_Upward_Reserve_MW \<Rightarrow> set (LOAD_FOLLOWING_RESERVE_RESOURCES m)
      | _ \<Rightarrow> {})"

definition var_at :: "model \<Rightarrow> variable \<Rightarrow> resource \<Rightarrow> timepoint \<Rightarrow> error + expr" where
  "var_at m v r t =
     (if r \<in> variable_resources m v \<and> t \<in> set (TIMEPOINTS m)
      then Inr (Var v r [t])
      else Inl KeyError)"



section \<open>Unit commitment\<close>


definition prestart_to_start_definition ::
  "model \<Rightarrow> temporal_index \<Rightarrow> resource \<Rightarrow> timepoint \<Rightarrow> error + expr" where
  "prestart_to_start_definition m ix r t =
     (let min_down_time = min_down_time_hours m (technology m r) in
      case param_get (last_timepoint_of_day ix) (period m t, day m t) of
        Inl e \<Rightarrow> Inl e
      | Inr l \<Rightarrow>
          (let day_wrap = (if t + min_down_time > l then timepoints_per_day else 0)
           in var_at m Start_Units r (t + min_down_time - day_wrap)))"

definition PreStart_Units ::
  "model \<Rightarrow> temporal_index \<Rightarrow> error + ((resource \<times> timepoint) \<times> expr) list" where
  "PreStart_Units m ix =
     construct_component (\<lambda>(r, t). prestart_to_start_definition m ix r t)
       (List.product (DISPATCHABLE_RESOURCES m) (TIMEPOINTS m))"

definition preshut_down_to_shut_down_definition ::
  "model \<Rightarrow> temporal_index \<Rightarrow> resource \<Rightarrow> timepoint \<Rightarrow> error + expr" where
  "preshut_down_to_shut_down_definition m ix r t =
     (let min_up_time = min_up_time_hours m (technology m r) in
      case param_get (last_timepoint_of_day ix) (period m t, day m t) of
        Inl e \<Rightarrow> Inl e
      | Inr l \<Rightarrow>
          (let day_wrap = (if t + min_up_time > l then timepoints_per_day else 0)
           in var_at m Shut_Down_Units r (t + min_up_time - day_wrap)))"

definition PreShut_Down_Units ::
  "model \<Rightarrow> temporal_index \<Rightarrow> error + ((resource \<times> timepoint) \<times> expr) list" where
  "PreShut_Down_Units m ix =
     construct_component (\<lambda>(r, t). preshut_down_to_shut_down_definition m ix r t)
       (List.product (DISPATCHABLE_RESOURCES m) (TIMEPOINTS m))"

text \<open>
  The timepoints \<^verbatim>\<open>define_starting_units\<close> and \<^verbatim>\<open>define_shutting_down_units\<close>
  sum over, for a day whose first timepoint is \<open>f\<close> and a minimum time of
  \<open>n\<close> hours: \<^verbatim>\<open>range(1, n)\<close> steps back, shifted by \<^verbatim>\<open>timepoints_per_day\<close>
  where a step falls before \<open>f\<close>.
\<close>

definition previous_timepoints :: "timepoint \<Rightarrow> int \<Rightarrow> timepoint \<Rightarrow> timepoint list" where
  "previous_timepoints f n t =
     (if t - n < f
      then map (\<lambda>pt. if t - pt \<ge> f then t - pt else t + timepoints_per_day - pt) [1..n - 1]
      else map (\<lambda>pt. t - pt) [1..n - 1])"

text \<open>The running sum \<^verbatim>\<open>acc += component[resource, t]\<close>, started at \<^verbatim>\<open>float()\<close>.\<close>

fun sum_component ::
  "((resource \<times> timepoint) \<times> expr) list \<Rightarrow> resource \<Rightarrow> expr \<Rightarrow> timepoint list \<Rightarrow> error + expr" where
  "sum_component cmp r acc [] = Inr acc"
| "sum_component cmp r acc (t # ts) =
     (case param_get cmp (r, t) of
        Inl e \<Rightarrow> Inl e
      | Inr x \<Rightarrow> sum_component cmp r (Add acc x) ts)"

definition define_starting_units ::
  "model \<Rightarrow> temporal_index \<Rightarrow> ((resource \<times> timepoint) \<times> expr) list
     \<Rightarrow> resource \<Rightarrow> timepoint \<Rightarrow> error + expr" where
  "define_starting_units m ix prestart_units r t =
     (let min_down_time = min_down_time_hours m (technology m r) in
      case param_get (first_timepoint_of_day ix) (period m t, day m t) of
        Inl e \<Rightarrow> Inl e
      | Inr f \<Rightarrow> sum_component prestart_units r (Const 0) (previous_timepoints f min_down_time t))"

definition define_shutting_down_units ::
  "model \<Rightarrow> temporal_index \<Rightarrow> ((resource \<times> timepoint) \<times> expr) list
     \<Rightarrow> resource \<Rightarrow> timepoint \<Rightarrow> error + expr" where
  "define_shutting_down_units m ix preshut_down_units r t =
     (let min_up_time = min_up_time_hours m (technology m r) in
      case param_get (first_timepoint_of_day ix) (period m t, day m t) of
        Inl e \<Rightarrow> Inl e
      | Inr f \<Rightarrow> sum_component preshut_down_units r (Const 0) (previous_timepoints f min_up_time t))"












section \<open>Storage\<close>



section \<open>Retirement eligibility\<close>

text \<open>
  A set built with \<^verbatim>\<open>filter\<close> and \<^verbatim>\<open>validate\<close> takes the members of its
  initialiser that pass the filter; the first member that fails the
  validation rule aborts the construction with ValueError.
\<close>

fun set_construct :: "('a \<Rightarrow> bool) \<Rightarrow> ('a \<Rightarrow> bool) \<Rightarrow> 'a list \<Rightarrow> error + 'a list" where
  "set_construct flt validate [] = Inr []"
| "set_construct flt validate (x # xs) =
     (if flt x
      then (if validate x
            then (case set_construct flt validate xs of
                    Inl e \<Rightarrow> Inl e
                  | Inr ys \<Rightarrow> Inr (x # ys))
            else Inl ValueError)
      else set_construct flt validate xs)"

definition can_retire_resources_validation_rule :: "model \<Rightarrow> resource \<Rightarrow> bool" where
  "can_retire_resources_validation_rule m r =
     (if r \<in> set (THERMAL_RESOURCES m) - set (STORAGE_RESOURCES m)
              - set (TX_DELIVERABILITY_RESOURCES m)
      then True else False)"

definition CAN_RETIRE_RESOURCES :: "model \<Rightarrow> error + resource list" where
  "CAN_RETIRE_RESOURCES m =
     set_construct (can_retire m) (can_retire_resources_validation_rule m) (RESOURCES m)"

text \<open>\<^verbatim>\<open>CAN_RETIRE_RESOURCES_NEW = CAN_RETIRE_RESOURCES & NEW_BUILD_RESOURCES\<close>\<close>

definition CAN_RETIRE_RESOURCES_NEW :: "model \<Rightarrow> resource list \<Rightarrow> resource list" where
  "CAN_RETIRE_RESOURCES_NEW m can_retire_resources =
     filter (\<lambda>r. r \<in> set (NEW_BUILD_RESOURCES m)) can_retire_resources"

section \<open>Planning reserve margin memberships\<close>




section \<open>Transmission deliverability\<close>

text \<open>
  \<^verbatim>\<open>find_prev_period\<close> returns the largest period below the given one, or
  \<^verbatim>\<open>None\<close> for the first period.
\<close>

definition find_prev_period :: "temporal_index \<Rightarrow> int \<Rightarrow> int option" where
  "find_prev_period ix p =
     (case filter (\<lambda>q. q < p) (PERIODS ix) of
        [] \<Rightarrow> None
      | q # qs \<Rightarrow> Some (fold max qs q))"

definition operational_new_capacity_in_period_by_vintage_rule ::
  "resource list \<Rightarrow> resource \<Rightarrow> int \<Rightarrow> int \<Rightarrow> expr" where
  "operational_new_capacity_in_period_by_vintage_rule can_retire_new r p v =
     (let retired_capacity =
            (if r \<in> set can_retire_new
             then Var Retire_New_Capacity_By_Vintage_Cumulative_MW r [p, v]
             else Const 0)
      in Sub (Var Build_Capacity_MW r [v]) retired_capacity)"

text \<open>The loop over \<^verbatim>\<open>VINTAGES\<close>, which is the same list as \<^verbatim>\<open>PERIODS\<close>.\<close>

definition operational_new_capacity_in_period_rule ::
  "temporal_index \<Rightarrow> resource list \<Rightarrow> resource \<Rightarrow> int \<Rightarrow> expr" where
  "operational_new_capacity_in_period_rule ix can_retire_new r p =
     fold (\<lambda>v acc. if p \<ge> v
                    then Add acc (operational_new_capacity_in_period_by_vintage_rule can_retire_new r p v)
                    else acc)
       (PERIODS ix) (Const 0)"

definition Operational_New_Capacity_MW ::
  "model \<Rightarrow> temporal_index \<Rightarrow> resource list \<Rightarrow> ((resource \<times> int) \<times> expr) list" where
  "Operational_New_Capacity_MW m ix can_retire_new =
     map (\<lambda>(r, p). ((r, p), operational_new_capacity_in_period_rule ix can_retire_new r p))
       (List.product (NEW_BUILD_RESOURCES m) (PERIODS ix))"

definition deliverability_def_rule ::
  "((resource \<times> int) \<times> expr) list \<Rightarrow> resource \<Rightarrow> int \<Rightarrow> error + rule_result" where
  "deliverability_def_rule operational_new_capacity r p =
     (case param_get operational_new_capacity (r, p) of
        Inl e \<Rightarrow> Inl e
      | Inr cap \<Rightarrow>
          Inr (Emit (Eq (Add (Var Fully_Deliverable_Installed_Capacity_MW r [p])
                             (Var Energy_Only_Installed_Capacity_MW r [p]))
                        cap)))"

definition Deliverability_Definition_Constraint ::
  "model \<Rightarrow> temporal_index \<Rightarrow> ((resource \<times> int) \<times> expr) list
     \<Rightarrow> error + ((resource \<times> int) \<times> constraint) list" where
  "Deliverability_Definition_Constraint m ix operational_new_capacity =
     constraint_construct (\<lambda>(r, p). deliverability_def_rule operational_new_capacity r p)
       (List.product (TX_DELIVERABILITY_RESOURCES m) (PERIODS ix))"

definition fully_deliverable_period_build_rule ::
  "temporal_index \<Rightarrow> resource \<Rightarrow> int \<Rightarrow> error + rule_result" where
  "fully_deliverable_period_build_rule ix r current_period =
     (if current_period = first_period ix then Inr Skip
      else
        (case find_prev_period ix current_period of
           None \<Rightarrow> Inl KeyError
         | Some prev_period \<Rightarrow>
             Inr (Emit (Ge (Var Fully_Deliverable_Installed_Capacity_MW r [current_period])
                           (Var Fully_Deliverable_Installed_Capacity_MW r [prev_period])))))"

definition Fully_Deliverable_Period_Build_Constraint ::
  "model \<Rightarrow> temporal_index \<Rightarrow> error + ((resource \<times> int) \<times> constraint) list" where
  "Fully_Deliverable_Period_Build_Constraint m ix =
     constraint_construct (\<lambda>(r, p). fully_deliverable_period_build_rule ix r p)
       (List.product (TX_DELIVERABILITY_RESOURCES m) (PERIODS ix))"

definition energy_only_period_build_rule ::
  "temporal_index \<Rightarrow> resource \<Rightarrow> int \<Rightarrow> error + rule_result" where
  "energy_only_period_build_rule ix r current_period =
     (if current_period = first_period ix then Inr Skip
      else
        (case find_prev_period ix current_period of
           None \<Rightarrow> Inl KeyError
         | Some prev_period \<Rightarrow>
             Inr (Emit (Ge (Var Energy_Only_Installed_Capacity_MW r [current_period])
                           (Var Energy_Only_Installed_Capacity_MW r [prev_period])))))"

definition Energy_Only_Period_Build_Constraint ::
  "model \<Rightarrow> temporal_index \<Rightarrow> error + ((resource \<times> int) \<times> constraint) list" where
  "Energy_Only_Period_Build_Constraint m ix =
     constraint_construct (\<lambda>(r, p). energy_only_period_build_rule ix r p)
       (List.product (TX_DELIVERABILITY_RESOURCES m) (PERIODS ix))"

section \<open>Flexible parameters\<close>

text \<open>
  \<^verbatim>\<open>load_data.py\<close> writes sparse overrides into the data portal's
  dictionary.  An index label of the override table is a string or an
  integer, as the CSV reader leaves it; a value is a float or a string.  The
  four timepoint dictionaries are loaded from the timepoint table before
  anything else and map a timepoint to an integer; every other entry of the
  portal maps a key to a value.  The conversions \<^verbatim>\<open>int(s)\<close> and \<^verbatim>\<open>float(s)\<close>
  of a string are parameters of the model.
\<close>

datatype label = Str string | Num int

datatype csv_value = Float real | Text string

datatype "value" = VFloat real | VBool bool | VText string

datatype key = KObject label | KPair label int

type_synonym index = "string \<times> label \<times> label \<times> label \<times> label \<times> label"

record builtins =
  int_of_str :: "string \<Rightarrow> int option"
  float_of_str :: "string \<Rightarrow> real option"

record data_portal =
  period_data :: "(timepoint \<times> int) list"
  month_data :: "(timepoint \<times> int) list"
  day_data :: "(timepoint \<times> int) list"
  hour_of_day_data :: "(timepoint \<times> int) list"
  loaded :: "(string \<times> (key \<times> value) list) list"

record time_sets =
  sets_PERIODS :: "int list"
  sets_DAYS :: "int list"
  sets_HOURS :: "int list"

type_synonym timepoint_mapping = "(timepoint \<times> int option \<times> int option \<times> int option) list"

fun py_int :: "builtins \<Rightarrow> label \<Rightarrow> error + int" where
  "py_int B (Num n) = Inr n"
| "py_int B (Str s) = (case int_of_str B s of None \<Rightarrow> Inl ValueError | Some n \<Rightarrow> Inr n)"

text \<open>The keys of \<^verbatim>\<open>data._data[namespace]\<close>.\<close>

definition portal_keys :: "data_portal \<Rightarrow> string list" where
  "portal_keys data = [''period'', ''month'', ''day'', ''hour_of_day''] @ map fst (loaded data)"

text \<open>\<^verbatim>\<open>data._data[namespace][param][key] = value\<close>\<close>

definition set_param_value :: "data_portal \<Rightarrow> string \<Rightarrow> key \<Rightarrow> value \<Rightarrow> error + data_portal" where
  "set_param_value data prm k v =
     (case map_of (loaded data) prm of
        None \<Rightarrow> Inl KeyError
      | Some d \<Rightarrow> Inr (data\<lparr>loaded := AList.update prm (AList.update k v d) (loaded data)\<rparr>))"

text \<open>A loop whose body may raise: the first error ends it.\<close>

fun for_each :: "('a \<Rightarrow> 's \<Rightarrow> error + 's) \<Rightarrow> 'a list \<Rightarrow> 's \<Rightarrow> error + 's" where
  "for_each body [] s = Inr s"
| "for_each body (x # xs) s =
     (case body x s of Inl e \<Rightarrow> Inl e | Inr s' \<Rightarrow> for_each body xs s')"

text \<open>
  \<^verbatim>\<open>create_timepoint_mapping\<close>: a frame indexed by timepoint with the period,
  day and hour of each (a missing entry compares unequal to everything), and
  the sets of values.  The sets are iterated in list order here.
\<close>

definition create_timepoint_mapping :: "data_portal \<Rightarrow> timepoint_mapping \<times> time_sets" where
  "create_timepoint_mapping data =
     (let timepoints = rev (remdups (rev (map fst (period_data data) @ map fst (month_data data)
                         @ map fst (day_data data) @ map fst (hour_of_day_data data))));
          mapping = map (\<lambda>t. (t, map_of (period_data data) t, map_of (day_data data) t,
                               map_of (hour_of_day_data data) t)) timepoints
      in (mapping,
          \<lparr>sets_PERIODS = remdups (map snd (period_data data)),
           sets_DAYS = remdups (map snd (day_data data)),
           sets_HOURS = remdups (map snd (hour_of_day_data data))\<rparr>))"

fun parse_timepoint_param ::
  "builtins \<Rightarrow> data_portal \<Rightarrow> timepoint_mapping \<Rightarrow> index \<Rightarrow> value \<Rightarrow> error + data_portal" where
  "parse_timepoint_param B data mapping (prm, model_object, p, d, hour_of_day_from, hour_of_day_to) v =
     (case py_int B hour_of_day_from of Inl e \<Rightarrow> Inl e | Inr hour_from \<Rightarrow>
     (case py_int B hour_of_day_to of Inl e \<Rightarrow> Inl e | Inr hour_to \<Rightarrow>
     (case py_int B d of Inl e \<Rightarrow> Inl e | Inr day_i \<Rightarrow>
     (case py_int B p of Inl e \<Rightarrow> Inl e | Inr period_i \<Rightarrow>
        for_each
          (\<lambda>hour data.
             let timepoint_to_use =
                   map fst (filter (\<lambda>(t, p', d', h').
                              p' = Some period_i \<and> d' = Some day_i \<and> h' = Some hour) mapping)
             in if length timepoint_to_use > 1 then Inl ValueError
                else (case timepoint_to_use of
                        [] \<Rightarrow> Inl IndexError
                      | t # _ \<Rightarrow> set_param_value data prm (KPair model_object t) v))
          [hour_from..hour_to] data))))"

fun parse_period_param :: "builtins \<Rightarrow> data_portal \<Rightarrow> index \<Rightarrow> value \<Rightarrow> error + data_portal" where
  "parse_period_param B data (prm, model_object, p, d, hour_of_day_from, hour_of_day_to) v =
     (case py_int B p of
        Inl e \<Rightarrow> Inl e
      | Inr period_i \<Rightarrow> set_param_value data prm (KPair model_object period_i) v)"

fun parse_model_object_param :: "data_portal \<Rightarrow> index \<Rightarrow> value \<Rightarrow> error + data_portal" where
  "parse_model_object_param data (prm, model_object, p, d, hour_of_day_from, hour_of_day_to) v =
     set_param_value data prm (KObject model_object) v"

text \<open>The type inference on a value: a float stays, \<^verbatim>\<open>'True'\<close> and \<^verbatim>\<open>'False'\<close>
  go through \<^verbatim>\<open>bool\<close>, which is true of every non-empty string, and any other
  string is converted to a float where it parses.\<close>

definition infer_value :: "builtins \<Rightarrow> csv_value \<Rightarrow> value" where
  "infer_value B v =
     (case v of
        Float x \<Rightarrow> VFloat x
      | Text s \<Rightarrow>
          if s \<in> set [''True'', ''False''] then VBool (s \<noteq> [])
          else (case float_of_str B s of Some x \<Rightarrow> VFloat x | None \<Rightarrow> VText s))"

text \<open>The body of the loop over the rows of the override table.\<close>

fun parse_flexible_row ::
  "builtins \<Rightarrow> timepoint_mapping \<Rightarrow> time_sets \<Rightarrow> index \<times> csv_value \<Rightarrow> data_portal
     \<Rightarrow> error + data_portal" where
  "parse_flexible_row B mapping sets ((prm, model_object, p, d, hour_of_day_from, hour_of_day_to), raw) data =
     (let v = infer_value B raw in
      if list_all (\<lambda>idx. idx = Str ''None'') [p, d, hour_of_day_from, hour_of_day_to]
      then parse_model_object_param data
             (prm, model_object, p, d, hour_of_day_from, hour_of_day_to) v
      else if p \<noteq> Str ''None''
                \<and> list_all (\<lambda>idx. idx = Str ''None'') [d, hour_of_day_from, hour_of_day_to]
      then (if p = Str ''All''
            then for_each
                   (\<lambda>period_in_set data.
                      parse_period_param B data
                        (prm, model_object, Num period_in_set, d, hour_of_day_from, hour_of_day_to) v)
                   (sets_PERIODS sets) data
            else parse_period_param B data
                   (prm, model_object, p, d, hour_of_day_from, hour_of_day_to) v)
      else
        (case py_int B hour_of_day_from of Inl e \<Rightarrow> Inl e | Inr hour_from \<Rightarrow>
        (case py_int B hour_of_day_to of Inl e \<Rightarrow> Inl e | Inr hour_to \<Rightarrow>
           if hour_from \<notin> set (sets_HOURS sets) \<or> hour_to \<notin> set (sets_HOURS sets)
           then Inl ValueError
           else if d = Str ''All'' \<and> p = Str ''All''
           then for_each
                  (\<lambda>period_in_set.
                     for_each
                       (\<lambda>day_in_set data.
                          parse_timepoint_param B data mapping
                            (prm, model_object, Num period_in_set, Num day_in_set,
                             Num hour_from, Num hour_to) v)
                       (sets_DAYS sets))
                  (sets_PERIODS sets) data
           else if d = Str ''All'' \<and> p \<noteq> Str ''All''
           then for_each
                  (\<lambda>day_in_set data.
                     (case py_int B p of
                        Inl e \<Rightarrow> Inl e
                      | Inr period_i \<Rightarrow>
                          parse_timepoint_param B data mapping
                            (prm, model_object, Num period_i, Num day_in_set,
                             Num hour_from, Num hour_to) v))
                  (sets_DAYS sets) data
           else if d \<noteq> Str ''All'' \<and> p = Str ''All''
           then for_each
                  (\<lambda>period_in_set data.
                     (case py_int B d of
                        Inl e \<Rightarrow> Inl e
                      | Inr day_i \<Rightarrow>
                          parse_timepoint_param B data mapping
                            (prm, model_object, Num period_in_set, Num day_i,
                             Num hour_from, Num hour_to) v))
                  (sets_PERIODS sets) data
           else parse_timepoint_param B data mapping
                  (prm, model_object, p, d, hour_of_day_from, hour_of_day_to) v)))"

definition parse_flexible_params ::
  "builtins \<Rightarrow> data_portal \<Rightarrow> (index \<times> csv_value) list \<Rightarrow> error + data_portal" where
  "parse_flexible_params B data flexible_params =
     (case create_timepoint_mapping data of
        (mapping, sets) \<Rightarrow>
          (let params_to_create = rev (remdups (rev (map (\<lambda>row. fst (fst row)) flexible_params)))
           in case for_each
                     (\<lambda>prm data.
                        if prm \<in> set (portal_keys data) then Inl AttributeError
                        else Inr (data\<lparr>loaded := loaded data @ [(prm, [])]\<rparr>))
                     params_to_create data of
                Inl e \<Rightarrow> Inl e
              | Inr data' \<Rightarrow> for_each (parse_flexible_row B mapping sets) flexible_params data'))"

section \<open>Example instances\<close>

text \<open>
  A small system: two periods, two representative days of three timepoints
  in each period, three thermal units, a battery, a solar plant and a hydro
  plant.  Each resource is its own technology.  The fractions are the
  doubles nearest to 0.5 and 0.3 (gas), 0.8 and 0.4 (ccgt), and 1 and 0.
\<close>

definition example_model :: model where
  "example_model =
     \<lparr>TIMEPOINTS = [1, 2, 3, 4, 5, 6, 7, 8, 9, 10, 11, 12],
      period = (\<lambda>t. if t \<le> 6 then 2020 else 2030),
      day = (\<lambda>t. if t \<le> 3 \<or> (7 \<le> t \<and> t \<le> 9) then 1 else 2),
      RESOURCES = [''gas'', ''ccgt'', ''peaker'', ''battery'', ''solar'', ''hydro''],
      technology = (\<lambda>r. r),
      can_retire = (\<lambda>r. r = ''gas''),
      THERMAL_RESOURCES = [''gas'', ''ccgt'', ''peaker''],
      DISPATCHABLE_RESOURCES = [''gas'', ''ccgt'', ''peaker''],
      STORAGE_RESOURCES = [''battery''],
      NEW_BUILD_RESOURCES = [''battery'', ''solar''],
      RPS_ELIGIBLE_RESOURCES = [''solar'', ''hydro''],
      REGULATION_RESERVE_RESOURCES = [''gas'', ''battery''],
      LOAD_FOLLOWING_RESERVE_RESOURCES = [''gas''],
      PRM_RESOURCES = [''gas'', ''ccgt'', ''peaker'', ''battery'', ''solar''],
      PRM_NQC_RESOURCES = [''gas'', ''ccgt'', ''peaker'', ''battery''],
      PRM_VARIABLE_RENEWABLE_RESOURCES = [''solar''],
      EE_PROGRAMS = [],
      LOAD_ONLY_RESOURCES = [],
      FLEXIBLE_LOAD_RESOURCES = [],
      min_down_time_hours = (\<lambda>tech. 2),
      min_up_time_hours = (\<lambda>tech. 3),
      ramp_rate_fraction =
        (\<lambda>tech. if tech = ''gas'' then Double 1 (- 1)
                else if tech = ''ccgt'' then Double 3602879701896397 (- 52)
                else Double 1 0),
      min_stable_level_fraction =
        (\<lambda>tech. if tech = ''gas'' then Double 5404319552844595 (- 54)
                else if tech = ''ccgt'' then Double 3602879701896397 (- 53)
                else Double 0 0),
      unit_size_mw = (\<lambda>tech. 100),
      charging_efficiency = (\<lambda>tech. 9 / 10),
      discharging_efficiency = (\<lambda>tech. 9 / 10),
      reg_dispatch_fraction = 1 / 5,
      lf_reserve_dispatch_fraction = 1 / 10,
      elcc_solar_bin = (\<lambda>r. r = ''solar''),
      elcc_wind_bin = (\<lambda>r. False),
      import_on_existing_tx = (\<lambda>r. False),
      import_on_new_tx = (\<lambda>r. False)\<rparr>"

definition example_index :: temporal_index where
  "example_index =
     \<lparr>PERIODS = [2020, 2030], first_period = 2020, DAYS = [1, 2],
      first_timepoint_of_day =
        [((2020, 1), 1), ((2020, 2), 4), ((2030, 1), 7), ((2030, 2), 10)],
      last_timepoint_of_day =
        [((2020, 1), 3), ((2020, 2), 6), ((2030, 1), 9), ((2030, 2), 12)],
      previous_timepoint =
        [(1, 3), (2, 1), (3, 2), (4, 6), (5, 4), (6, 5),
         (7, 9), (8, 7), (9, 8), (10, 12), (11, 10), (12, 11)],
      next_timepoint =
        [(1, 2), (2, 3), (3, 1), (4, 5), (5, 6), (6, 4),
         (7, 8), (8, 9), (9, 7), (10, 11), (11, 12), (12, 10)]\<rparr>"

definition example_solution :: solution where
  "example_solution =
     (\<lambda>v r i. if v = Commit_Units \<and> i = [4] then 2
              else if v = Commit_Units \<and> i = [6] then 1
              else if v = Start_Units \<and> i = [4] then 1
              else 0)"


text \<open>Solutions used to exercise the storage and deliverability constraints.\<close>

definition storage_solution :: solution where
  "storage_solution =
     (\<lambda>v r i. if v = Charge_Storage_MW \<and> i = [6] then 10
              else if v = Provide_Downward_Reg_MW \<and> i = [6] then 5
              else if v = Energy_in_Storage_MWh \<and> i = [4] then 99 / 10
              else 0)"

definition deliverability_solution :: solution where
  "deliverability_solution =
     (\<lambda>v r i. if v = Build_Capacity_MW \<and> i = [2020] then 50
              else if v = Build_Capacity_MW \<and> i = [2030] then 30
              else if v = Fully_Deliverable_Installed_Capacity_MW \<and> i = [2020] then 40
              else if v = Energy_Only_Installed_Capacity_MW \<and> i = [2020] then 10
              else if v = Fully_Deliverable_Installed_Capacity_MW \<and> i = [2030] then 60
              else if v = Energy_Only_Installed_Capacity_MW \<and> i = [2030] then 20
              else 0)"



definition hydro_retire_model :: model where
  "hydro_retire_model = example_model\<lparr>can_retire := (\<lambda>r. r = ''gas'' \<or> r = ''hydro'')\<rparr>"

text \<open>
  One period with a first day of twenty-four timepoints and a second day of
  twelve.
\<close>

definition short_day_model :: model where
  "short_day_model =
     example_model
       \<lparr>TIMEPOINTS :=
          [1, 2, 3, 4, 5, 6, 7, 8, 9, 10, 11, 12, 13, 14, 15, 16, 17, 18,
           19, 20, 21, 22, 23, 24, 25, 26, 27, 28, 29, 30, 31, 32, 33, 34,
           35, 36],
        period := (\<lambda>t. 2020),
        day := (\<lambda>t. if t \<le> 24 then 1 else 2)\<rparr>"

definition short_day_index :: temporal_index where
  "short_day_index =
     \<lparr>PERIODS = [2020], first_period = 2020, DAYS = [1, 2],
      first_timepoint_of_day = [((2020, 1), 1), ((2020, 2), 25)],
      last_timepoint_of_day = [((2020, 1), 24), ((2020, 2), 36)],
      previous_timepoint =
        [(1, 24), (2, 1), (3, 2), (4, 3), (5, 4), (6, 5), (7, 6), (8, 7),
         (9, 8), (10, 9), (11, 10), (12, 11), (13, 12), (14, 13), (15, 14),
         (16, 15), (17, 16), (18, 17), (19, 18), (20, 19), (21, 20), (22, 21),
         (23, 22), (24, 23), (25, 36), (26, 25), (27, 26), (28, 27), (29, 28),
         (30, 29), (31, 30), (32, 31), (33, 32), (34, 33), (35, 34), (36, 35)],
      next_timepoint =
        [(1, 2), (2, 3), (3, 4), (4, 5), (5, 6), (6, 7), (7, 8), (8, 9),
         (9, 10), (10, 11), (11, 12), (12, 13), (13, 14), (14, 15), (15, 16),
         (16, 17), (17, 18), (18, 19), (19, 20), (20, 21), (21, 22), (22, 23),
         (23, 24), (24, 1), (25, 26), (26, 27), (27, 28), (28, 29), (29, 30),
         (30, 31), (31, 32), (32, 33), (33, 34), (34, 35), (35, 36), (36, 25)]\<rparr>"








subsection \<open>A data portal and override tables\<close>

text \<open>
  A decimal reader standing in for \<^verbatim>\<open>int\<close> and \<^verbatim>\<open>float\<close> in the examples: an
  optional minus sign followed by decimal digits.
\<close>

fun digits_value :: "string \<Rightarrow> nat \<Rightarrow> nat option" where
  "digits_value [] acc = Some acc"
| "digits_value (c # cs) acc =
     (case map_of [(CHR ''0'', 0), (CHR ''1'', 1), (CHR ''2'', 2), (CHR ''3'', 3), (CHR ''4'', 4),
                   (CHR ''5'', 5), (CHR ''6'', 6), (CHR ''7'', 7), (CHR ''8'', 8), (CHR ''9'', 9)] c of
        None \<Rightarrow> None
      | Some d \<Rightarrow> digits_value cs (10 * acc + d))"

definition decimal_int :: "string \<Rightarrow> int option" where
  "decimal_int s =
     (case s of
        [] \<Rightarrow> None
      | c # cs \<Rightarrow>
          if c = CHR ''-''
          then (if cs = [] then None else map_option (\<lambda>n. - int n) (digits_value cs 0))
          else map_option int (digits_value s 0))"

definition example_builtins :: builtins where
  "example_builtins =
     \<lparr>int_of_str = decimal_int,
      float_of_str = (\<lambda>s. map_option real_of_int (decimal_int s))\<rparr>"

text \<open>Four timepoints (two days of two hours in one period) and one parameter loaded
  from a table; an override table that binds, one that names the loaded parameter, and
  one whose hour range ends at hour 25.\<close>

definition example_portal :: data_portal where
  "example_portal =
     \<lparr>period_data = [(1, 2020), (2, 2020), (3, 2020), (4, 2020)],
      month_data = [(1, 1), (2, 1), (3, 7), (4, 7)],
      day_data = [(1, 1), (2, 1), (3, 2), (4, 2)],
      hour_of_day_data = [(1, 1), (2, 2), (3, 1), (4, 2)],
      loaded = [(''unit_size_mw'', [(KObject (Str ''gas''), VFloat 100)])]\<rparr>"

definition example_overrides :: "(index \<times> csv_value) list" where
  "example_overrides =
     [((''max_output'', Str ''gas'', Str ''All'', Str ''1'', Str ''1'', Str ''2''), Float 50),
      ((''fixed_cost'', Str ''gas'', Str ''2020'', Str ''None'', Str ''None'', Str ''None''),
       Text ''12''),
      ((''must_run'', Str ''gas'', Str ''None'', Str ''None'', Str ''None'', Str ''None''),
       Text ''True'')]"

definition duplicate_overrides :: "(index \<times> csv_value) list" where
  "duplicate_overrides =
     [((''max_output'', Str ''gas'', Str ''All'', Str ''1'', Str ''1'', Str ''2''), Float 50),
      ((''unit_size_mw'', Str ''gas'', Str ''None'', Str ''None'', Str ''None'', Str ''None''),
       Float 120)]"

definition hour_overrides :: "(index \<times> csv_value) list" where
  "hour_overrides =
     [((''fixed_cost'', Str ''gas'', Str ''2020'', Str ''None'', Str ''None'', Str ''None''),
       Text ''12''),
      ((''max_output'', Str ''gas'', Str ''All'', Str ''All'', Str ''1'', Str ''25''), Float 50)]"

section \<open>Properties of the temporal index\<close>

lemma construct_component_get:
  "construct_component rule ks = Inr kvs \<Longrightarrow> k \<in> set ks \<Longrightarrow>
     \<exists>v. rule k = Inr v \<and> map_of kvs k = Some v"
proof (induction ks arbitrary: kvs)
  case Nil
  then show ?case by simp
next
  case (Cons a ks)
  then show ?case
    by (auto split: sum.splits)
qed


lemma py_min_Inr:
  assumes "py_min xs = Inr x"
  shows "xs \<noteq> [] \<and> x = Min (set xs)"
proof (cases xs)
  case Nil
  with assms show ?thesis by simp
next
  case (Cons a as)
  have "fold min as a = Min (set (a # as))"
    by (simp only: Min.set_eq_fold)
  with Cons assms show ?thesis by auto
qed

lemma py_max_Inr:
  assumes "py_max xs = Inr x"
  shows "xs \<noteq> [] \<and> x = Max (set xs)"
proof (cases xs)
  case Nil
  with assms show ?thesis by simp
next
  case (Cons a as)
  have "fold max as a = Max (set (a # as))"
    by (simp only: Max.set_eq_fold)
  with Cons assms show ?thesis by auto
qed

lemma build_temporal_index_Inr:
  assumes "build_temporal_index m = Inr ix"
  shows "PERIODS ix = periods_init m"
    and "DAYS ix = days_init m"
    and "first_period_init (periods_init m) = Inr (first_period ix)"
    and "construct_component (\<lambda>(p, d). first_timepoint_of_day_init m p d)
           (List.product (periods_init m) (days_init m)) = Inr (first_timepoint_of_day ix)"
    and "construct_component (\<lambda>(p, d). last_timepoint_of_day_init m p d)
           (List.product (periods_init m) (days_init m)) = Inr (last_timepoint_of_day ix)"
    and "previous_timepoint_init m (first_timepoint_of_day ix) (last_timepoint_of_day ix)
           = Inr (previous_timepoint ix)"
    and "next_timepoint_init m (first_timepoint_of_day ix) (last_timepoint_of_day ix)
           = Inr (next_timepoint ix)"
  using assms
  by (auto simp: build_temporal_index_def Let_def split: sum.splits)

lemma day_boundaries:
  assumes b: "build_temporal_index m = Inr ix" and t: "t \<in> set (TIMEPOINTS m)"
  shows "map_of (first_timepoint_of_day ix) (period m t, day m t)
           = Some (Min (set (timepoints_on_day m (period m t) (day m t))))"
    and "map_of (last_timepoint_of_day ix) (period m t, day m t)
           = Some (Max (set (timepoints_on_day m (period m t) (day m t))))"
proof -
  from t have k: "(period m t, day m t) \<in> set (List.product (periods_init m) (days_init m))"
    by (simp add: periods_init_def days_init_def)
  from construct_component_get [OF build_temporal_index_Inr(4) [OF b] k]
  show "map_of (first_timepoint_of_day ix) (period m t, day m t)
           = Some (Min (set (timepoints_on_day m (period m t) (day m t))))"
    by (auto simp: first_timepoint_of_day_init_def dest: py_min_Inr)
  from construct_component_get [OF build_temporal_index_Inr(5) [OF b] k]
  show "map_of (last_timepoint_of_day ix) (period m t, day m t)
           = Some (Max (set (timepoints_on_day m (period m t) (day m t))))"
    by (auto simp: last_timepoint_of_day_init_def dest: py_max_Inr)
qed

lemma previous_timepoint_value:
  assumes b: "build_temporal_index m = Inr ix" and t: "t \<in> set (TIMEPOINTS m)"
  shows "map_of (previous_timepoint ix) t =
           Some (if t = Min (set (timepoints_on_day m (period m t) (day m t)))
                 then Max (set (timepoints_on_day m (period m t) (day m t)))
                 else t - 1)"
  using construct_component_get
          [OF build_temporal_index_Inr(6) [OF b, unfolded previous_timepoint_init_def] t]
    day_boundaries [OF b t]
  by (auto simp: param_get_def split: if_splits)

lemma next_timepoint_value:
  assumes b: "build_temporal_index m = Inr ix" and t: "t \<in> set (TIMEPOINTS m)"
  shows "map_of (next_timepoint ix) t =
           Some (if t = Max (set (timepoints_on_day m (period m t) (day m t)))
                 then Min (set (timepoints_on_day m (period m t) (day m t)))
                 else t + 1)"
  using construct_component_get
          [OF build_temporal_index_Inr(7) [OF b, unfolded next_timepoint_init_def] t]
    day_boundaries [OF b t]
  by (auto simp: param_get_def split: if_splits)

lemma example_index_built: "build_temporal_index example_model = Inr example_index"
  by (simp add: example_model_def example_index_def build_temporal_index_def periods_init_def
      days_init_def first_period_init_def first_timepoint_of_day_init_def
      last_timepoint_of_day_init_def timepoints_on_day_def previous_timepoint_init_def
      next_timepoint_init_def param_get_def)

text \<open>
  C1.  In a temporal index that was built, and for every timepoint \<open>t\<close>: the
  first and the last timepoint of the (period, day) of \<open>t\<close> are the least and
  the greatest timepoint with that period and day; if \<open>t\<close> is the first one,
  its previous timepoint is the last one; if \<open>t\<close> is the last one, its next
  timepoint is the first one; and if \<open>t\<close> is neither, its previous timepoint is
  \<open>t - 1\<close> and its next timepoint is \<open>t + 1\<close>.
\<close>

theorem circular_timepoint_invariant:
  assumes "build_temporal_index m = Inr ix" and "t \<in> set (TIMEPOINTS m)"
  shows "(let on_day = set (timepoints_on_day m (period m t) (day m t)) in
          map_of (first_timepoint_of_day ix) (period m t, day m t) = Some (Min on_day) \<and>
          map_of (last_timepoint_of_day ix) (period m t, day m t) = Some (Max on_day) \<and>
          (t = Min on_day \<longrightarrow> map_of (previous_timepoint ix) t = Some (Max on_day)) \<and>
          (t = Max on_day \<longrightarrow> map_of (next_timepoint ix) t = Some (Min on_day)) \<and>
          (t \<noteq> Min on_day \<and> t \<noteq> Max on_day \<longrightarrow>
             map_of (previous_timepoint ix) t = Some (t - 1) \<and>
             map_of (next_timepoint ix) t = Some (t + 1)))"
  using day_boundaries [OF assms] previous_timepoint_value [OF assms]
    next_timepoint_value [OF assms]
  by (simp add: Let_def)

theorem circular_timepoint_invariant_witness:
  "build_temporal_index example_model = Inr example_index
   \<and> 4 \<in> set (TIMEPOINTS example_model)
   \<and> 5 \<in> set (TIMEPOINTS example_model)
   \<and> 6 \<in> set (TIMEPOINTS example_model)
   \<and> Min (set (timepoints_on_day example_model 2020 2)) = 4
   \<and> Max (set (timepoints_on_day example_model 2020 2)) = 6
   \<and> map_of (previous_timepoint example_index) 4 = Some 6
   \<and> map_of (next_timepoint example_index) 6 = Some 4
   \<and> map_of (previous_timepoint example_index) 5 = Some 4
   \<and> map_of (next_timepoint example_index) 5 = Some 6"
proof -
  have t: "4 \<in> set (TIMEPOINTS example_model)" "5 \<in> set (TIMEPOINTS example_model)"
    "6 \<in> set (TIMEPOINTS example_model)"
    by (simp_all add: example_model_def)
  have d: "timepoints_on_day example_model 2020 2 = [4, 5, 6]"
    by (simp add: timepoints_on_day_def example_model_def)
  have pd: "period example_model 4 = 2020" "day example_model 4 = 2"
    "period example_model 5 = 2020" "day example_model 5 = 2"
    "period example_model 6 = 2020" "day example_model 6 = 2"
    by (simp_all add: example_model_def)
  from circular_timepoint_invariant [OF example_index_built t(1)]
    circular_timepoint_invariant [OF example_index_built t(2)]
    circular_timepoint_invariant [OF example_index_built t(3)]
  show ?thesis
    using example_index_built t by (simp add: pd d Let_def)
qed

section \<open>Properties of the constraints\<close>

lemma constraint_construct_total:
  "(\<And>i. i \<in> set is \<Longrightarrow> \<exists>x. rule i = Inr x) \<Longrightarrow> \<exists>cs. constraint_construct rule is = Inr cs"
proof (induction "is")
  case Nil
  then show ?case by simp
next
  case (Cons i "is")
  then obtain x where x: "rule i = Inr x" by auto
  from Cons obtain cs where cs: "constraint_construct rule is = Inr cs" by auto
  show ?case
    by (cases x) (simp_all add: x cs)
qed

lemma constraint_construct_mem:
  "constraint_construct rule is = Inr cs \<Longrightarrow> (j, c) \<in> set cs \<Longrightarrow>
     rule j = Inr (Emit c) \<and> j \<in> set is"
proof (induction "is" arbitrary: cs)
  case Nil
  then show ?case by simp
next
  case (Cons i "is")
  then show ?case
    by (auto split: sum.splits rule_result.splits)
qed

lemma constraint_construct_get:
  "constraint_construct rule is = Inr cs \<Longrightarrow> i \<in> set is \<Longrightarrow>
     (rule i = Inr Skip \<and> map_of cs i = None) \<or> (\<exists>c. rule i = Inr (Emit c) \<and> map_of cs i = Some c)"
proof (induction "is" arbitrary: cs)
  case Nil
  then show ?case by simp
next
  case (Cons a "is")
  show ?case
  proof (cases "rule a")
    case (Inl e)
    with Cons.prems show ?thesis by simp
  next
    case (Inr x)
    show ?thesis
    proof (cases x)
      case Skip
      with Inr Cons.prems have cs: "constraint_construct rule is = Inr cs" by simp
      show ?thesis
      proof (cases "i = a")
        case True
        have "map_of cs a = None"
        proof (cases "map_of cs a")
          case None
          then show ?thesis .
        next
          case (Some c)
          then have "(a, c) \<in> set cs" by (rule map_of_SomeD)
          from constraint_construct_mem [OF cs this] Inr Skip show ?thesis by simp
        qed
        with True Inr Skip show ?thesis by simp
      next
        case False
        with Cons.prems have "i \<in> set is" by simp
        from Cons.IH [OF cs this] show ?thesis .
      qed
    next
      case (Emit c)
      with Inr Cons.prems obtain cs' where cs': "constraint_construct rule is = Inr cs'"
        and cs: "cs = (a, c) # cs'"
        by (auto split: sum.splits)
      show ?thesis
      proof (cases "i = a")
        case True
        with Inr Emit cs show ?thesis by simp
      next
        case False
        with Cons.prems have "i \<in> set is" by simp
        from Cons.IH [OF cs' this] False cs show ?thesis by simp
      qed
    qed
  qed
qed

lemma feasible_holds:
  "feasible sol cs \<Longrightarrow> map_of cs i = Some c \<Longrightarrow> holds sol c"
  by (auto simp: feasible_def list_all_iff dest!: map_of_SomeD)





















subsection \<open>Double arithmetic\<close>









lemma constraint_construct_at:
  assumes total: "\<And>j. j \<in> set is \<Longrightarrow> \<exists>x. rule j = Inr x" and i: "i \<in> set is"
  shows "\<exists>cs. constraint_construct rule is = Inr cs
           \<and> (\<forall>c. rule i = Inr (Emit c) \<longrightarrow> map_of cs i = Some c)
           \<and> (rule i = Inr Skip \<longrightarrow> map_of cs i = None)"
proof -
  from constraint_construct_total [of "is" rule, OF total]
  obtain cs where cs: "constraint_construct rule is = Inr cs" by blast
  from constraint_construct_get [OF cs i] cs show ?thesis by auto
qed




lemma example_can_retire: "CAN_RETIRE_RESOURCES example_model = Inr [''gas'']"
  by (simp add: CAN_RETIRE_RESOURCES_def example_model_def can_retire_resources_validation_rule_def
      TX_DELIVERABILITY_RESOURCES_def)






















subsection \<open>Deliverability\<close>

lemma monotone_over_periods:
  fixes f :: "int \<Rightarrow> real"
  assumes fin: "finite P"
    and step: "\<And>p. p \<in> P \<Longrightarrow> p \<noteq> Min P \<Longrightarrow> f (Max {x \<in> P. x < p}) \<le> f p"
  shows "p \<in> P \<Longrightarrow> q \<in> P \<Longrightarrow> q \<le> p \<Longrightarrow> f q \<le> f p"
proof (induction "nat (p - Min P)" arbitrary: p rule: less_induct)
  case less
  show ?case
  proof (cases "q = p")
    case True
    then show ?thesis by simp
  next
    case False
    with less.prems have qp: "q < p" by simp
    let ?B = "{x \<in> P. x < p}"
    have finB: "finite ?B" using fin by simp
    from less.prems qp have qB: "q \<in> ?B" by simp
    then have neB: "?B \<noteq> {}" by blast
    have minq: "Min P \<le> q" using fin less.prems by simp
    with qp have ne: "p \<noteq> Min P" by simp
    from Max_in [OF finB neB] have p'P: "Max ?B \<in> P" and p'lt: "Max ?B < p" by auto
    from Max_ge [OF finB qB] have qle: "q \<le> Max ?B" .
    have "Min P \<le> Max ?B" using minq qle by simp
    with p'lt have "nat (Max ?B - Min P) < nat (p - Min P)" by simp
    from less.hyps [OF this p'P less.prems(2) qle] have "f q \<le> f (Max ?B)" .
    also from step [OF less.prems(1) ne] have "f (Max ?B) \<le> f p" .
    finally show ?thesis .
  qed
qed

lemma find_prev_period_value:
  assumes p: "p \<in> set (PERIODS ix)" and ne: "p \<noteq> Min (set (PERIODS ix))"
  shows "find_prev_period ix p = Some (Max {x \<in> set (PERIODS ix). x < p})"
proof -
  have "Min (set (PERIODS ix)) \<le> p" using p by simp
  with ne have lt: "Min (set (PERIODS ix)) < p" by simp
  have "Min (set (PERIODS ix)) \<in> set (PERIODS ix)"
    using p by (intro Min_in) auto
  with lt have "Min (set (PERIODS ix)) \<in> set (filter (\<lambda>q. q < p) (PERIODS ix))" by simp
  then obtain a as where f: "filter (\<lambda>q. q < p) (PERIODS ix) = a # as"
    by (cases "filter (\<lambda>q. q < p) (PERIODS ix)") auto
  have "fold max as a = Max (set (a # as))"
    by (simp only: Max.set_eq_fold)
  also have "set (a # as) = {x \<in> set (PERIODS ix). x < p}"
    unfolding f [symmetric] by auto
  finally show ?thesis by (simp add: find_prev_period_def f)
qed

lemma first_period_Min:
  assumes b: "build_temporal_index m = Inr ix"
  shows "PERIODS ix \<noteq> [] \<and> first_period ix = Min (set (PERIODS ix))"
  using build_temporal_index_Inr(1,3) [OF b] py_min_Inr [of "periods_init m" "first_period ix"]
  by (simp add: first_period_init_def)

lemma set_construct_Inr:
  "set_construct flt validate xs = Inr ys \<Longrightarrow> ys = filter flt xs \<and> (\<forall>x \<in> set ys. validate x)"
  by (induction xs arbitrary: ys) (auto split: if_splits sum.splits)

lemma set_construct_Inl:
  "x \<in> set xs \<Longrightarrow> flt x \<Longrightarrow> \<not> validate x \<Longrightarrow> set_construct flt validate xs = Inl ValueError"
  by (induction xs) (auto split: sum.splits)

lemma set_construct_cases:
  "set_construct flt validate xs = Inl ValueError \<or> set_construct flt validate xs = Inr (filter flt xs)"
  by (induction xs) (auto split: sum.splits)

lemma eval_operational_new_capacity:
  assumes "r \<notin> set can_retire_new"
  shows "eval sol (fold (\<lambda>v acc. if p \<ge> v
                    then Add acc (operational_new_capacity_in_period_by_vintage_rule can_retire_new r p v)
                    else acc) vs acc0)
         = eval sol acc0 + (\<Sum>v \<leftarrow> filter (\<lambda>v. v \<le> p) vs. sol Build_Capacity_MW r [v])"
  using assms
  by (induction vs arbitrary: acc0)
     (simp_all add: operational_new_capacity_in_period_by_vintage_rule_def)

lemma map_of_product_map:
  "a \<in> set as \<Longrightarrow> b \<in> set bs \<Longrightarrow>
     map_of (map (\<lambda>(a, b). ((a, b), f a b)) (List.product as bs)) (a, b) = Some (f a b)"
proof -
  assume "a \<in> set as" "b \<in> set bs"
  then have "(a, b) \<in> set (List.product as bs)" by simp
  then show ?thesis
    by (induction "List.product as bs" arbitrary: ) (auto simp: map_of_map_restrict o_def split_def restrict_map_def)
qed

lemma period_build_rule_total:
  assumes b: "build_temporal_index m = Inr ix" and p: "p \<in> set (PERIODS ix)"
  shows "fully_deliverable_period_build_rule ix r p =
           (if p = Min (set (PERIODS ix)) then Inr Skip
            else Inr (Emit (Ge (Var Fully_Deliverable_Installed_Capacity_MW r [p])
                   (Var Fully_Deliverable_Installed_Capacity_MW r [Max {x \<in> set (PERIODS ix). x < p}]))))"
    and "energy_only_period_build_rule ix r p =
           (if p = Min (set (PERIODS ix)) then Inr Skip
            else Inr (Emit (Ge (Var Energy_Only_Installed_Capacity_MW r [p])
                   (Var Energy_Only_Installed_Capacity_MW r [Max {x \<in> set (PERIODS ix). x < p}]))))"
  using first_period_Min [OF b] find_prev_period_value [OF p]
  by (auto simp: fully_deliverable_period_build_rule_def energy_only_period_build_rule_def)

text \<open>
  C7.  For every resource \<open>r\<close> of \<open>TX_DELIVERABILITY_RESOURCES\<close> and every
  period \<open>p\<close>: the deliverability constraint at \<open>(r, p)\<close> holds exactly when
  \<open>Fully_Deliverable + Energy_Only\<close> equals \<open>Operational_New_Capacity_MW[r, p]\<close>
  (the capacity built in the vintages up to \<open>p\<close>, such a resource not being
  retirable); the two period-build rules are skipped at the first period and
  otherwise bound each component from below by its value in the previous
  period, the greatest period below \<open>p\<close>; so in a feasible solution both
  components are non-decreasing over the periods.
\<close>

theorem deliverability_split:
  assumes b: "build_temporal_index m = Inr ix"
    and cr: "CAN_RETIRE_RESOURCES m = Inr crr"
    and r: "r \<in> set (TX_DELIVERABILITY_RESOURCES m)"
    and p: "p \<in> set (PERIODS ix)"
  shows "\<exists>dd fd eo.
           Deliverability_Definition_Constraint m ix
             (Operational_New_Capacity_MW m ix (CAN_RETIRE_RESOURCES_NEW m crr)) = Inr dd
         \<and> Fully_Deliverable_Period_Build_Constraint m ix = Inr fd
         \<and> Energy_Only_Period_Build_Constraint m ix = Inr eo
         \<and> (\<exists>c cap. map_of dd (r, p) = Some c
              \<and> map_of (Operational_New_Capacity_MW m ix (CAN_RETIRE_RESOURCES_NEW m crr)) (r, p)
                  = Some cap
              \<and> (\<forall>sol. eval sol cap
                    = (\<Sum>v \<leftarrow> filter (\<lambda>v. v \<le> p) (PERIODS ix). sol Build_Capacity_MW r [v]))
              \<and> (\<forall>sol. holds sol c \<longleftrightarrow>
                    sol Fully_Deliverable_Installed_Capacity_MW r [p]
                      + sol Energy_Only_Installed_Capacity_MW r [p] = eval sol cap)
              \<and> (\<forall>sol. feasible sol dd \<longrightarrow>
                    sol Fully_Deliverable_Installed_Capacity_MW r [p]
                      + sol Energy_Only_Installed_Capacity_MW r [p] = eval sol cap))
         \<and> (p = first_period ix \<longrightarrow> map_of fd (r, p) = None \<and> map_of eo (r, p) = None)
         \<and> (p \<noteq> first_period ix \<longrightarrow>
              (\<exists>q cf ce. find_prev_period ix p = Some q
                 \<and> q \<in> set (PERIODS ix) \<and> q < p
                 \<and> (\<forall>q' \<in> set (PERIODS ix). q' < p \<longrightarrow> q' \<le> q)
                 \<and> map_of fd (r, p) = Some cf \<and> map_of eo (r, p) = Some ce
                 \<and> (\<forall>sol. holds sol cf \<longleftrightarrow>
                       sol Fully_Deliverable_Installed_Capacity_MW r [p]
                         \<ge> sol Fully_Deliverable_Installed_Capacity_MW r [q])
                 \<and> (\<forall>sol. holds sol ce \<longleftrightarrow>
                       sol Energy_Only_Installed_Capacity_MW r [p]
                         \<ge> sol Energy_Only_Installed_Capacity_MW r [q])))
         \<and> (\<forall>sol. feasible sol fd \<and> feasible sol eo \<longrightarrow>
              (\<forall>q \<in> set (PERIODS ix). q \<le> p \<longrightarrow>
                 sol Fully_Deliverable_Installed_Capacity_MW r [q]
                   \<le> sol Fully_Deliverable_Installed_Capacity_MW r [p]
               \<and> sol Energy_Only_Installed_Capacity_MW r [q]
                   \<le> sol Energy_Only_Installed_Capacity_MW r [p]))"
proof -
  let ?crn = "CAN_RETIRE_RESOURCES_NEW m crr"
  let ?onc = "Operational_New_Capacity_MW m ix ?crn"
  let ?idx = "List.product (TX_DELIVERABILITY_RESOURCES m) (PERIODS ix)"
  let ?P = "set (PERIODS ix)"
  let ?FD = "Fully_Deliverable_Installed_Capacity_MW"
  let ?EO = "Energy_Only_Installed_Capacity_MW"
  from first_period_Min [OF b] have fp: "first_period ix = Min ?P" by simp
  have new: "r' \<in> set (NEW_BUILD_RESOURCES m)" if "r' \<in> set (TX_DELIVERABILITY_RESOURCES m)" for r'
    using that by (simp add: TX_DELIVERABILITY_RESOURCES_def)
  have cap_at: "map_of ?onc (r', p') = Some (operational_new_capacity_in_period_rule ix ?crn r' p')"
    if "r' \<in> set (TX_DELIVERABILITY_RESOURCES m)" "p' \<in> ?P" for r' p'
    unfolding Operational_New_Capacity_MW_def
    using new [OF that(1)] that(2) by (rule map_of_product_map)
  \<comment> \<open>a transmission-deliverability resource is never a retirable one\<close>
  from set_construct_Inr [OF cr [unfolded CAN_RETIRE_RESOURCES_def]]
  have "\<forall>x \<in> set crr. can_retire_resources_validation_rule m x" by simp
  with r have "r \<notin> set crr"
    by (auto simp: can_retire_resources_validation_rule_def split: if_splits)
  then have notin: "r \<notin> set ?crn" by (simp add: CAN_RETIRE_RESOURCES_NEW_def)
  let ?cap = "operational_new_capacity_in_period_rule ix ?crn r p"
  have cap_val: "eval sol ?cap
      = (\<Sum>v \<leftarrow> filter (\<lambda>v. v \<le> p) (PERIODS ix). sol Build_Capacity_MW r [v])" for sol
    unfolding operational_new_capacity_in_period_rule_def
    by (simp add: eval_operational_new_capacity [OF notin])
  from r p have i: "(r, p) \<in> set ?idx" by simp
  \<comment> \<open>the three components are built\<close>
  let ?rdd = "\<lambda>(r, p). deliverability_def_rule ?onc r p"
  let ?rfd = "\<lambda>(r, p). fully_deliverable_period_build_rule ix r p"
  let ?reo = "\<lambda>(r, p). energy_only_period_build_rule ix r p"
  have ok_dd: "\<exists>x. ?rdd k = Inr x" if "k \<in> set ?idx" for k
  proof -
    from that obtain r' p' where k: "k = (r', p')"
      and "r' \<in> set (TX_DELIVERABILITY_RESOURCES m)" "p' \<in> ?P" by auto
    from cap_at [OF this(2,3)] show ?thesis
      by (simp add: k deliverability_def_rule_def param_get_def)
  qed
  have ok_fd: "\<exists>x. ?rfd k = Inr x" if "k \<in> set ?idx" for k
  proof -
    from that obtain r' p' where k: "k = (r', p')" and "p' \<in> ?P" by auto
    from period_build_rule_total(1) [OF b this(2)] show ?thesis by (simp add: k)
  qed
  have ok_eo: "\<exists>x. ?reo k = Inr x" if "k \<in> set ?idx" for k
  proof -
    from that obtain r' p' where k: "k = (r', p')" and "p' \<in> ?P" by auto
    from period_build_rule_total(2) [OF b this(2)] show ?thesis by (simp add: k)
  qed
  from constraint_construct_total [of ?idx ?rdd, OF ok_dd]
  obtain dd where dd: "Deliverability_Definition_Constraint m ix ?onc = Inr dd"
    by (auto simp: Deliverability_Definition_Constraint_def)
  from constraint_construct_total [of ?idx ?rfd, OF ok_fd]
  obtain fd where fd: "Fully_Deliverable_Period_Build_Constraint m ix = Inr fd"
    by (auto simp: Fully_Deliverable_Period_Build_Constraint_def)
  from constraint_construct_total [of ?idx ?reo, OF ok_eo]
  obtain eo where eo: "Energy_Only_Period_Build_Constraint m ix = Inr eo"
    by (auto simp: Energy_Only_Period_Build_Constraint_def)
  \<comment> \<open>the split\<close>
  let ?c = "Eq (Add (Var ?FD r [p]) (Var ?EO r [p])) ?cap"
  have "deliverability_def_rule ?onc r p = Inr (Emit ?c)"
    by (simp add: deliverability_def_rule_def param_get_def cap_at [OF r p])
  with constraint_construct_get [OF dd [unfolded Deliverability_Definition_Constraint_def] i]
  have c: "map_of dd (r, p) = Some ?c" by simp
  have hc: "holds sol ?c \<longleftrightarrow> sol ?FD r [p] + sol ?EO r [p] = eval sol ?cap" for sol
    by simp
  have fc: "feasible sol dd \<longrightarrow> sol ?FD r [p] + sol ?EO r [p] = eval sol ?cap" for sol
    using feasible_holds [of sol dd "(r, p)", OF _ c] by auto
  have split: "\<exists>c cap. map_of dd (r, p) = Some c
              \<and> map_of ?onc (r, p) = Some cap
              \<and> (\<forall>sol. eval sol cap
                    = (\<Sum>v \<leftarrow> filter (\<lambda>v. v \<le> p) (PERIODS ix). sol Build_Capacity_MW r [v]))
              \<and> (\<forall>sol. holds sol c \<longleftrightarrow> sol ?FD r [p] + sol ?EO r [p] = eval sol cap)
              \<and> (\<forall>sol. feasible sol dd \<longrightarrow> sol ?FD r [p] + sol ?EO r [p] = eval sol cap)"
    using c cap_at [OF r p] cap_val hc fc by blast
  \<comment> \<open>what the period-build components hold at a period of the resource\<close>
  have at_fd: "map_of fd (r, p') =
                 (if p' = Min ?P then None
                  else Some (Ge (Var ?FD r [p']) (Var ?FD r [Max {x \<in> ?P. x < p'}])))"
    if p': "p' \<in> ?P" for p'
  proof -
    from r p' have "(r, p') \<in> set ?idx" by simp
    from constraint_construct_get
      [OF fd [unfolded Fully_Deliverable_Period_Build_Constraint_def] this]
      period_build_rule_total(1) [OF b p', of r]
    show ?thesis by (auto split: if_splits)
  qed
  have at_eo: "map_of eo (r, p') =
                 (if p' = Min ?P then None
                  else Some (Ge (Var ?EO r [p']) (Var ?EO r [Max {x \<in> ?P. x < p'}])))"
    if p': "p' \<in> ?P" for p'
  proof -
    from r p' have "(r, p') \<in> set ?idx" by simp
    from constraint_construct_get
      [OF eo [unfolded Energy_Only_Period_Build_Constraint_def] this]
      period_build_rule_total(2) [OF b p', of r]
    show ?thesis by (auto split: if_splits)
  qed
  have first: "map_of fd (r, p) = None \<and> map_of eo (r, p) = None" if "p = first_period ix"
    using that at_fd [OF p] at_eo [OF p] fp by simp
  have later: "\<exists>q cf ce. find_prev_period ix p = Some q
                 \<and> q \<in> ?P \<and> q < p
                 \<and> (\<forall>q' \<in> ?P. q' < p \<longrightarrow> q' \<le> q)
                 \<and> map_of fd (r, p) = Some cf \<and> map_of eo (r, p) = Some ce
                 \<and> (\<forall>sol. holds sol cf \<longleftrightarrow> sol ?FD r [p] \<ge> sol ?FD r [q])
                 \<and> (\<forall>sol. holds sol ce \<longleftrightarrow> sol ?EO r [p] \<ge> sol ?EO r [q])"
    if "p \<noteq> first_period ix"
  proof -
    from that fp have ne: "p \<noteq> Min ?P" by simp
    let ?B = "{x \<in> ?P. x < p}"
    let ?q = "Max ?B"
    have finB: "finite ?B" by simp
    have "Min ?P \<in> ?P" using p by (intro Min_in) auto
    moreover have "Min ?P \<le> p" using p by simp
    ultimately have "Min ?P \<in> ?B" using ne by simp
    then have neB: "?B \<noteq> {}" by blast
    from Max_in [OF finB neB] have qP: "?q \<in> ?P" and qlt: "?q < p" by auto
    have qmax: "\<forall>q' \<in> ?P. q' < p \<longrightarrow> q' \<le> ?q"
      using Max_ge [OF finB] by simp
    from find_prev_period_value [OF p ne] have fq: "find_prev_period ix p = Some ?q" .
    from at_fd [OF p] ne have cf: "map_of fd (r, p) = Some (Ge (Var ?FD r [p]) (Var ?FD r [?q]))"
      by simp
    from at_eo [OF p] ne have ce: "map_of eo (r, p) = Some (Ge (Var ?EO r [p]) (Var ?EO r [?q]))"
      by simp
    have "\<forall>sol. holds sol (Ge (Var ?FD r [p]) (Var ?FD r [?q])) \<longleftrightarrow> sol ?FD r [p] \<ge> sol ?FD r [?q]"
      and "\<forall>sol. holds sol (Ge (Var ?EO r [p]) (Var ?EO r [?q])) \<longleftrightarrow> sol ?EO r [p] \<ge> sol ?EO r [?q]"
      by simp_all
    with fq qP qlt qmax cf ce show ?thesis by blast
  qed
  have mono: "\<forall>q \<in> ?P. q \<le> p \<longrightarrow>
                 sol ?FD r [q] \<le> sol ?FD r [p] \<and> sol ?EO r [q] \<le> sol ?EO r [p]"
    if feas: "feasible sol fd \<and> feasible sol eo" for sol
  proof -
    have step_fd: "sol ?FD r [Max {x \<in> ?P. x < p'}] \<le> sol ?FD r [p']"
      if "p' \<in> ?P" "p' \<noteq> Min ?P" for p'
      using feasible_holds [of sol fd "(r, p')"] feas at_fd [OF that(1)] that(2) by simp
    have step_eo: "sol ?EO r [Max {x \<in> ?P. x < p'}] \<le> sol ?EO r [p']"
      if "p' \<in> ?P" "p' \<noteq> Min ?P" for p'
      using feasible_holds [of sol eo "(r, p')"] feas at_eo [OF that(1)] that(2) by simp
    have "sol ?FD r [q] \<le> sol ?FD r [p]" if "q \<in> ?P" "q \<le> p" for q
      using monotone_over_periods [of ?P "\<lambda>x. sol ?FD r [x]" p q] step_fd p that by simp
    moreover have "sol ?EO r [q] \<le> sol ?EO r [p]" if "q \<in> ?P" "q \<le> p" for q
      using monotone_over_periods [of ?P "\<lambda>x. sol ?EO r [x]" p q] step_eo p that by simp
    ultimately show ?thesis by blast
  qed
  from dd fd eo split first later mono show ?thesis by blast
qed

theorem deliverability_split_witness:
  "build_temporal_index example_model = Inr example_index
   \<and> CAN_RETIRE_RESOURCES example_model = Inr [''gas'']
   \<and> ''solar'' \<in> set (TX_DELIVERABILITY_RESOURCES example_model)
   \<and> 2030 \<in> set (PERIODS example_index)
   \<and> 2030 \<noteq> first_period example_index
   \<and> find_prev_period example_index 2030 = Some 2020
   \<and> (\<exists>dd fd eo c cf ce.
          Deliverability_Definition_Constraint example_model example_index
            (Operational_New_Capacity_MW example_model example_index
               (CAN_RETIRE_RESOURCES_NEW example_model [''gas''])) = Inr dd
        \<and> Fully_Deliverable_Period_Build_Constraint example_model example_index = Inr fd
        \<and> Energy_Only_Period_Build_Constraint example_model example_index = Inr eo
        \<and> map_of dd (''solar'', 2030) = Some c
        \<and> map_of fd (''solar'', 2030) = Some cf
        \<and> map_of eo (''solar'', 2030) = Some ce
        \<and> holds deliverability_solution c
        \<and> holds deliverability_solution cf
        \<and> holds deliverability_solution ce)"
proof -
  have r: "''solar'' \<in> set (TX_DELIVERABILITY_RESOURCES example_model)"
    by (simp add: TX_DELIVERABILITY_RESOURCES_def example_model_def)
  have p: "2030 \<in> set (PERIODS example_index)" and ne: "2030 \<noteq> first_period example_index"
    and ps: "PERIODS example_index = [2020, 2030]"
    by (simp_all add: example_index_def)
  have q: "find_prev_period example_index 2030 = Some 2020"
    by (simp add: find_prev_period_def ps)
  from deliverability_split [OF example_index_built example_can_retire r p] ne
  obtain dd fd eo c cap q' cf ce where
    dd: "Deliverability_Definition_Constraint example_model example_index
            (Operational_New_Capacity_MW example_model example_index
               (CAN_RETIRE_RESOURCES_NEW example_model [''gas''])) = Inr dd"
    and fd: "Fully_Deliverable_Period_Build_Constraint example_model example_index = Inr fd"
    and eo: "Energy_Only_Period_Build_Constraint example_model example_index = Inr eo"
    and c: "map_of dd (''solar'', 2030) = Some c"
    and cf: "map_of fd (''solar'', 2030) = Some cf"
    and ce: "map_of eo (''solar'', 2030) = Some ce"
    and q': "find_prev_period example_index 2030 = Some q'"
    and cap: "\<And>sol. eval sol cap
                    = (\<Sum>v \<leftarrow> filter (\<lambda>v. v \<le> 2030) (PERIODS example_index).
                         sol Build_Capacity_MW ''solar'' [v])"
    and hc: "\<And>sol. holds sol c \<longleftrightarrow>
                    sol Fully_Deliverable_Installed_Capacity_MW ''solar'' [2030]
                      + sol Energy_Only_Installed_Capacity_MW ''solar'' [2030] = eval sol cap"
    and hf: "\<And>sol. holds sol cf \<longleftrightarrow>
                       sol Fully_Deliverable_Installed_Capacity_MW ''solar'' [2030]
                         \<ge> sol Fully_Deliverable_Installed_Capacity_MW ''solar'' [q']"
    and he: "\<And>sol. holds sol ce \<longleftrightarrow>
                       sol Energy_Only_Installed_Capacity_MW ''solar'' [2030]
                         \<ge> sol Energy_Only_Installed_Capacity_MW ''solar'' [q']"
    by blast
  from q q' have q2020: "q' = 2020" by simp
  have "holds deliverability_solution c"
    by (simp add: hc cap ps deliverability_solution_def)
  moreover have "holds deliverability_solution cf" "holds deliverability_solution ce"
    by (simp_all add: hf he q2020 deliverability_solution_def)
  ultimately show ?thesis
    using example_index_built example_can_retire r p ne q dd fd eo c cf ce by blast
qed

subsection \<open>Validated sets and parameters\<close>


lemma set_construct_total:
  "(\<And>x. x \<in> set xs \<Longrightarrow> flt x \<Longrightarrow> validate x) \<Longrightarrow>
     set_construct flt validate xs = Inr (filter flt xs)"
  by (induction xs) auto


text \<open>
  C10.  When the set \<open>CAN_RETIRE_RESOURCES\<close> is built, it is the resources
  flagged \<open>can_retire\<close> and each of them lies in
  \<open>THERMAL_RESOURCES - STORAGE_RESOURCES - TX_DELIVERABILITY_RESOURCES\<close>.  The
  construction fails with ValueError for a flagged resource that is not
  thermal, also when it is neither a storage nor a transmission-deliverability
  resource, and for a flagged storage or transmission-deliverability resource.
\<close>

theorem can_retire_only_thermal:
  "(\<forall>crr. CAN_RETIRE_RESOURCES m = Inr crr \<longrightarrow>
      crr = filter (can_retire m) (RESOURCES m)
      \<and> set crr \<subseteq> set (THERMAL_RESOURCES m) - set (STORAGE_RESOURCES m)
                    - set (TX_DELIVERABILITY_RESOURCES m))
   \<and> (r \<in> set (RESOURCES m) \<and> can_retire m r \<and> r \<notin> set (THERMAL_RESOURCES m)
        \<longrightarrow> CAN_RETIRE_RESOURCES m = Inl ValueError)
   \<and> (r \<in> set (RESOURCES m) \<and> can_retire m r
        \<and> (r \<in> set (STORAGE_RESOURCES m) \<or> r \<in> set (TX_DELIVERABILITY_RESOURCES m))
        \<longrightarrow> CAN_RETIRE_RESOURCES m = Inl ValueError)
   \<and> ((\<forall>r' \<in> set (RESOURCES m). can_retire m r' \<longrightarrow>
          r' \<in> set (THERMAL_RESOURCES m) - set (STORAGE_RESOURCES m)
                 - set (TX_DELIVERABILITY_RESOURCES m))
        \<longrightarrow> CAN_RETIRE_RESOURCES m = Inr (filter (can_retire m) (RESOURCES m)))"
proof -
  let ?v = "can_retire_resources_validation_rule m"
  have v: "?v x \<longleftrightarrow> x \<in> set (THERMAL_RESOURCES m) - set (STORAGE_RESOURCES m)
                 - set (TX_DELIVERABILITY_RESOURCES m)" for x
    by (simp add: can_retire_resources_validation_rule_def)
  have built: "crr = filter (can_retire m) (RESOURCES m)
      \<and> set crr \<subseteq> set (THERMAL_RESOURCES m) - set (STORAGE_RESOURCES m)
                    - set (TX_DELIVERABILITY_RESOURCES m)"
    if "CAN_RETIRE_RESOURCES m = Inr crr" for crr
    using set_construct_Inr [OF that [unfolded CAN_RETIRE_RESOURCES_def]] v by blast
  have fails: "CAN_RETIRE_RESOURCES m = Inl ValueError"
    if "r \<in> set (RESOURCES m)" "can_retire m r" "\<not> ?v r"
    unfolding CAN_RETIRE_RESOURCES_def using that by (rule set_construct_Inl)
  have total: "CAN_RETIRE_RESOURCES m = Inr (filter (can_retire m) (RESOURCES m))"
    if all: "\<forall>r' \<in> set (RESOURCES m). can_retire m r' \<longrightarrow> ?v r'"
    unfolding CAN_RETIRE_RESOURCES_def using all by (intro set_construct_total) blast
  from built fails total v show ?thesis by blast
qed

theorem can_retire_only_thermal_witness:
  "CAN_RETIRE_RESOURCES example_model = Inr [''gas'']
   \<and> ''gas'' \<in> set (THERMAL_RESOURCES example_model) - set (STORAGE_RESOURCES example_model)
                  - set (TX_DELIVERABILITY_RESOURCES example_model)
   \<and> ''hydro'' \<in> set (RESOURCES hydro_retire_model)
   \<and> can_retire hydro_retire_model ''hydro''
   \<and> ''hydro'' \<notin> set (THERMAL_RESOURCES hydro_retire_model)
   \<and> ''hydro'' \<notin> set (STORAGE_RESOURCES hydro_retire_model)
   \<and> ''hydro'' \<notin> set (TX_DELIVERABILITY_RESOURCES hydro_retire_model)
   \<and> CAN_RETIRE_RESOURCES hydro_retire_model = Inl ValueError"
proof -
  have h: "''hydro'' \<in> set (RESOURCES hydro_retire_model)"
    "can_retire hydro_retire_model ''hydro''"
    "''hydro'' \<notin> set (THERMAL_RESOURCES hydro_retire_model)"
    "''hydro'' \<notin> set (STORAGE_RESOURCES hydro_retire_model)"
    "''hydro'' \<notin> set (TX_DELIVERABILITY_RESOURCES hydro_retire_model)"
    by (simp_all add: hydro_retire_model_def example_model_def TX_DELIVERABILITY_RESOURCES_def)
  from can_retire_only_thermal [of hydro_retire_model "''hydro''"] h
  have f: "CAN_RETIRE_RESOURCES hydro_retire_model = Inl ValueError" by blast
  from can_retire_only_thermal [of example_model "''gas''"] example_can_retire
  have g: "''gas'' \<in> set (THERMAL_RESOURCES example_model) - set (STORAGE_RESOURCES example_model)
                  - set (TX_DELIVERABILITY_RESOURCES example_model)"
    by auto
  from example_can_retire g h f show ?thesis by blast
qed

subsection \<open>Day wrap-around of the commitment look-ahead and look-back\<close>

lemma previous_timepoints_in_day:
  assumes "f \<le> t" "t \<le> l" "l - f + 1 = timepoints_per_day" "1 \<le> n" "n \<le> timepoints_per_day"
  shows "set (previous_timepoints f n t) \<subseteq> {f..l}"
  using assms by (auto simp: previous_timepoints_def)

lemma lookahead_in_day:
  assumes "f \<le> t" "t \<le> l" "l - f + 1 = timepoints_per_day" "1 \<le> n" "n \<le> timepoints_per_day"
  shows "t + n - (if t + n > l then timepoints_per_day else 0) \<in> {f..l}"
  using assms by auto

lemma sum_component_total:
  "(\<And>t'. t' \<in> set ts \<Longrightarrow> \<exists>x. map_of cmp (r, t') = Some x) \<Longrightarrow>
     \<exists>e. sum_component cmp r acc ts = Inr e"
proof (induction ts arbitrary: acc)
  case Nil
  then show ?case by simp
next
  case (Cons a ts)
  then obtain x where "map_of cmp (r, a) = Some x" by auto
  with Cons show ?case by (simp add: param_get_def)
qed

lemma construct_component_defined:
  "construct_component rule ks = Inr kvs \<Longrightarrow> k \<in> set ks \<Longrightarrow> \<exists>x. map_of kvs k = Some x"
  using construct_component_get [of rule ks kvs k] by blast

lemma short_day_index_built: "build_temporal_index short_day_model = Inr short_day_index"
  by (simp add: short_day_model_def example_model_def short_day_index_def build_temporal_index_def periods_init_def
      days_init_def first_period_init_def first_timepoint_of_day_init_def
      last_timepoint_of_day_init_def timepoints_on_day_def previous_timepoint_init_def
      next_timepoint_init_def param_get_def)

lemma short_day_first_day:
  "timepoints_on_day short_day_model 2020 1 =
     [1, 2, 3, 4, 5, 6, 7, 8, 9, 10, 11, 12, 13, 14, 15, 16, 17, 18, 19, 20, 21, 22, 23, 24]"
  by (simp add: timepoints_on_day_def short_day_model_def)

lemma short_day_second_day:
  "timepoints_on_day short_day_model 2020 2 = [25, 26, 27, 28, 29, 30, 31, 32, 33, 34, 35, 36]"
  by (simp add: timepoints_on_day_def short_day_model_def)

lemma full_day_interval:
  "set [1, 2, 3, 4, 5, 6, 7, 8, 9, 10, 11, 12, 13, 14, 15, 16, 17, 18, 19, 20, 21, 22, 23, 24]
     = {1..24::int}"
proof -
  have "[1..24::int] =
          [1, 2, 3, 4, 5, 6, 7, 8, 9, 10, 11, 12, 13, 14, 15, 16, 17, 18, 19, 20, 21, 22, 23, 24]"
    by code_simp
  then have "set [1, 2, 3, 4, 5, 6, 7, 8, 9, 10, 11, 12, 13, 14, 15, 16, 17, 18, 19, 20, 21, 22,
                  23, 24] = set [1..24::int]"
    by (rule arg_cong [OF sym])
  then show ?thesis by (simp only: set_upto)
qed

section \<open>Properties of the flexible parameters\<close>

lemma for_each_fails:
  "x \<in> set xs \<Longrightarrow> (\<And>s. \<exists>e. body x s = Inl e) \<Longrightarrow> \<exists>e. for_each body xs s = Inl e"
proof (induction xs arbitrary: s)
  case Nil
  then show ?case by simp
next
  case (Cons a xs)
  show ?case
  proof (cases "body a s")
    case (Inl e)
    then show ?thesis by simp
  next
    case (Inr s')
    show ?thesis
    proof (cases "x = a")
      case True
      with Cons.prems(2) [of s] Inr show ?thesis by simp
    next
      case False
      with Cons.prems(1) have "x \<in> set xs" by simp
      from Cons.IH [OF this Cons.prems(2), of s'] Inr show ?thesis by simp
    qed
  qed
qed

lemma create_params_fails:
  "p \<in> set ps \<Longrightarrow> p \<in> set (portal_keys data) \<Longrightarrow>
     for_each (\<lambda>prm data.
                 if prm \<in> set (portal_keys data) then Inl AttributeError
                 else Inr (data\<lparr>loaded := loaded data @ [(prm, [])]\<rparr>)) ps data
       = Inl AttributeError"
proof (induction ps arbitrary: data)
  case Nil
  then show ?case by simp
next
  case (Cons a ps)
  show ?case
  proof (cases "a \<in> set (portal_keys data)")
    case True
    then show ?thesis by simp
  next
    case False
    with Cons.prems have "p \<in> set ps" by auto
    moreover from Cons.prems(2)
    have "p \<in> set (portal_keys (data\<lparr>loaded := loaded data @ [(a, [])]\<rparr>))"
      by (auto simp: portal_keys_def)
    ultimately show ?thesis using Cons.IH False by simp
  qed
qed

lemma hour_range_row_fails:
  assumes range: "\<not> (hf = Str ''None'' \<and> ht = Str ''None'')"
    and bad: "\<not> (\<exists>a b. py_int B hf = Inr a \<and> py_int B ht = Inr b
                  \<and> a \<in> set (sets_HOURS sets) \<and> b \<in> set (sets_HOURS sets))"
  shows "\<exists>e. parse_flexible_row B mapping sets ((prm, obj, p, d, hf, ht), raw) s = Inl e"
  using assms
  by (cases "py_int B hf"; cases "py_int B ht") (auto simp: Let_def)

lemma example_overrides_parsed:
  "parse_flexible_params example_builtins example_portal example_overrides =
     Inr (example_portal
            \<lparr>loaded :=
               [(''unit_size_mw'', [(KObject (Str ''gas''), VFloat 100)]),
                (''max_output'',
                 [(KPair (Str ''gas'') 1, VFloat 50), (KPair (Str ''gas'') 2, VFloat 50)]),
                (''fixed_cost'', [(KPair (Str ''gas'') 2020, VFloat 12)]),
                (''must_run'', [(KObject (Str ''gas''), VBool True)])]\<rparr>)"
  by (simp add: parse_flexible_params_def create_timepoint_mapping_def example_portal_def
      example_overrides_def example_builtins_def portal_keys_def infer_value_def
      set_param_value_def decimal_int_def Let_def upto.simps)

lemma hour_overrides_rejected:
  "parse_flexible_params example_builtins example_portal hour_overrides = Inl ValueError"
  by (simp add: parse_flexible_params_def create_timepoint_mapping_def example_portal_def
      hour_overrides_def example_builtins_def portal_keys_def infer_value_def
      set_param_value_def decimal_int_def Let_def)

text \<open>
  C9.  Binding the flexible parameters fails with AttributeError, returning
  no data, whenever a parameter named in the override table is already a key
  of the data portal; and it fails with an error whenever a row of the table
  carries an hour range (its two hour labels are not both \<open>None\<close>) whose
  \<open>hour_of_day_from\<close> or \<open>hour_of_day_to\<close> is not an integer of the set of
  hours of the timepoint records.
\<close>

theorem flexible_params_fail:
  "((\<exists>row \<in> set flexible_params. fst (fst row) \<in> set (portal_keys data))
      \<longrightarrow> parse_flexible_params B data flexible_params = Inl AttributeError)
   \<and> (((prm, obj, p, d, hf, ht), raw) \<in> set flexible_params
        \<and> \<not> (hf = Str ''None'' \<and> ht = Str ''None'')
        \<and> \<not> (\<exists>a b. py_int B hf = Inr a \<and> py_int B ht = Inr b
                 \<and> a \<in> set (map snd (hour_of_day_data data))
                 \<and> b \<in> set (map snd (hour_of_day_data data)))
      \<longrightarrow> (\<exists>e. parse_flexible_params B data flexible_params = Inl e))"
proof (intro conjI impI)
  assume "\<exists>row \<in> set flexible_params. fst (fst row) \<in> set (portal_keys data)"
  then obtain row where row: "row \<in> set flexible_params"
    and k: "fst (fst row) \<in> set (portal_keys data)" by blast
  from row have "fst (fst row) \<in> set (rev (remdups (rev (map (\<lambda>row. fst (fst row)) flexible_params))))"
    by simp
  from create_params_fails [OF this k] show "parse_flexible_params B data flexible_params = Inl AttributeError"
    by (simp add: parse_flexible_params_def Let_def split: prod.splits)
next
  assume a: "((prm, obj, p, d, hf, ht), raw) \<in> set flexible_params
        \<and> \<not> (hf = Str ''None'' \<and> ht = Str ''None'')
        \<and> \<not> (\<exists>a b. py_int B hf = Inr a \<and> py_int B ht = Inr b
                 \<and> a \<in> set (map snd (hour_of_day_data data))
                 \<and> b \<in> set (map snd (hour_of_day_data data)))"
  obtain mapping sets where cm: "create_timepoint_mapping data = (mapping, sets)"
    by (cases "create_timepoint_mapping data")
  then have "sets = snd (create_timepoint_mapping data)" by simp
  then have hours: "set (sets_HOURS sets) = set (map snd (hour_of_day_data data))"
    by (simp add: create_timepoint_mapping_def Let_def)
  from a have mem: "((prm, obj, p, d, hf, ht), raw) \<in> set flexible_params"
    and range: "\<not> (hf = Str ''None'' \<and> ht = Str ''None'')"
    and bad: "\<not> (\<exists>a b. py_int B hf = Inr a \<and> py_int B ht = Inr b
                  \<and> a \<in> set (sets_HOURS sets) \<and> b \<in> set (sets_HOURS sets))"
    unfolding hours by blast+
  have rows: "\<exists>e. for_each (parse_flexible_row B mapping sets) flexible_params s = Inl e" for s
    using mem hour_range_row_fails [OF range bad] by (rule for_each_fails)
  show "\<exists>e. parse_flexible_params B data flexible_params = Inl e"
    using rows by (auto simp: parse_flexible_params_def cm Let_def split: sum.splits)
qed

theorem flexible_params_fail_witness:
  "parse_flexible_params example_builtins example_portal example_overrides =
     Inr (example_portal
            \<lparr>loaded :=
               [(''unit_size_mw'', [(KObject (Str ''gas''), VFloat 100)]),
                (''max_output'',
                 [(KPair (Str ''gas'') 1, VFloat 50), (KPair (Str ''gas'') 2, VFloat 50)]),
                (''fixed_cost'', [(KPair (Str ''gas'') 2020, VFloat 12)]),
                (''must_run'', [(KObject (Str ''gas''), VBool True)])]\<rparr>)
   \<and> ((''unit_size_mw'', Str ''gas'', Str ''None'', Str ''None'', Str ''None'', Str ''None''),
        Float 120) \<in> set duplicate_overrides
   \<and> ''unit_size_mw'' \<in> set (portal_keys example_portal)
   \<and> parse_flexible_params example_builtins example_portal duplicate_overrides
        = Inl AttributeError
   \<and> ((''max_output'', Str ''gas'', Str ''All'', Str ''All'', Str ''1'', Str ''25''), Float 50)
        \<in> set hour_overrides
   \<and> py_int example_builtins (Str ''1'') = Inr 1
   \<and> py_int example_builtins (Str ''25'') = Inr 25
   \<and> 25 \<notin> set (map snd (hour_of_day_data example_portal))
   \<and> parse_flexible_params example_builtins example_portal hour_overrides = Inl ValueError"
proof -
  have d: "((''unit_size_mw'', Str ''gas'', Str ''None'', Str ''None'', Str ''None'', Str ''None''),
        Float 120) \<in> set duplicate_overrides"
    and k: "''unit_size_mw'' \<in> set (portal_keys example_portal)"
    by (simp_all add: duplicate_overrides_def portal_keys_def example_portal_def)
  then have "\<exists>row \<in> set duplicate_overrides. fst (fst row) \<in> set (portal_keys example_portal)"
    by force
  with flexible_params_fail [of duplicate_overrides example_portal example_builtins]
  have df: "parse_flexible_params example_builtins example_portal duplicate_overrides
        = Inl AttributeError" by blast
  have h: "((''max_output'', Str ''gas'', Str ''All'', Str ''All'', Str ''1'', Str ''25''), Float 50)
        \<in> set hour_overrides"
    and i1: "py_int example_builtins (Str ''1'') = Inr 1"
    and i25: "py_int example_builtins (Str ''25'') = Inr 25"
    and out: "25 \<notin> set (map snd (hour_of_day_data example_portal))"
    by (simp_all add: hour_overrides_def example_builtins_def decimal_int_def example_portal_def)
  from flexible_params_fail [of hour_overrides example_portal example_builtins
      "''max_output''" "Str ''gas''" "Str ''All''" "Str ''All''" "Str ''1''" "Str ''25''" "Float 50"]
    h i1 i25 out
  have "\<exists>e. parse_flexible_params example_builtins example_portal hour_overrides = Inl e"
    by simp
  with example_overrides_parsed d k df h i1 i25 out hour_overrides_rejected
  show ?thesis by blast
qed

end
